theory Spec2Isabelle
  imports Main "HOL-Library.Multiset" "HOL-Library.Sublist"
begin

section \<open>Strings\<close>

text \<open>
  A JavaScript string is modelled as a \<^typ>\<open>string\<close>: the list of its code units, each
  character standing for the code unit of the same number. The model covers the ASCII
  range: case mapping acts on the letters a-z and A-Z and leaves every other character
  alone, and white space is the ASCII white space.
\<close>

abbreviation DQ :: char where "DQ \<equiv> CHR 0x22"
abbreviation BSL :: char where "BSL \<equiv> CHR 0x5C"
abbreviation NL :: char where "NL \<equiv> CHR 0x0A"

definition lowerLetters :: string where
  "lowerLetters = ''abcdefghijklmnopqrstuvwxyz''"

definition upperLetters :: string where
  "upperLetters = ''ABCDEFGHIJKLMNOPQRSTUVWXYZ''"

definition toUpperChar :: "char \<Rightarrow> char" where
  "toUpperChar c = (case map_of (zip lowerLetters upperLetters) c of Some u \<Rightarrow> u | None \<Rightarrow> c)"

definition toLowerChar :: "char \<Rightarrow> char" where
  "toLowerChar c = (case map_of (zip upperLetters lowerLetters) c of Some l \<Rightarrow> l | None \<Rightarrow> c)"

definition toUpperCase :: "string \<Rightarrow> string" where
  "toUpperCase s = map toUpperChar s"

definition toLowerCase :: "string \<Rightarrow> string" where
  "toLowerCase s = map toLowerChar s"

definition isWhiteSpace :: "char \<Rightarrow> bool" where
  "isWhiteSpace c = (c \<in> set [CHR 0x09, CHR 0x0A, CHR 0x0B, CHR 0x0C, CHR 0x0D, CHR '' ''])"

definition trim :: "string \<Rightarrow> string" where
  "trim s = rev (dropWhile isWhiteSpace (rev (dropWhile isWhiteSpace s)))"

text \<open>\<^verbatim>\<open>s.startsWith(t)\<close> and \<^verbatim>\<open>s.includes(t)\<close>.\<close>

fun startsWith :: "string \<Rightarrow> string \<Rightarrow> bool" where
  "startsWith s [] = True"
| "startsWith [] (c # t) = False"
| "startsWith (a # s) (c # t) = (a = c \<and> startsWith s t)"

fun includesStr :: "string \<Rightarrow> string \<Rightarrow> bool" where
  "includesStr [] t = (t = [])"
| "includesStr (a # s) t = (startsWith (a # s) t \<or> includesStr s t)"

text \<open>\<^verbatim>\<open>parts.join(sep)\<close>.\<close>

fun join :: "string \<Rightarrow> string list \<Rightarrow> string" where
  "join sep [] = []"
| "join sep [x] = x"
| "join sep (x # y # ys) = x @ sep @ join sep (y # ys)"

text \<open>\<^verbatim>\<open>s.slice(0, n)\<close> for a non-negative \<open>n\<close> is \<^term>\<open>take n s\<close>.\<close>

subsection \<open>Numbers as text\<close>

text \<open>
  A number of the model is an integer (a JSON number with no fraction and no
  exponent, in the range where a double is exact), and \<^verbatim>\<open>String(n)\<close> is its
  decimal form.
\<close>

definition digitChar :: "nat \<Rightarrow> char" where
  "digitChar d = ''0123456789'' ! d"

function intDigits :: "int \<Rightarrow> string" where
  "intDigits n = (if n < 10 then [digitChar (nat n)] else intDigits (n div 10) @ [digitChar (nat (n mod 10))])"
  by pat_completeness auto
termination
  by (relation "measure nat") auto

declare intDigits.simps [simp del]

definition natToString :: "nat \<Rightarrow> string" where
  "natToString n = intDigits (int n)"

definition numberToString :: "int \<Rightarrow> string" where
  "numberToString n = (if n < 0 then CHR ''-'' # intDigits (- n) else intDigits n)"

definition isDigit :: "char \<Rightarrow> bool" where
  "isDigit c = (c \<in> set ''0123456789'')"

definition digitValue :: "char \<Rightarrow> int" where
  "digitValue c = (case map_of (zip ''0123456789'' [0, 1, 2, 3, 4, 5, 6, 7, 8, 9]) c of
     Some d \<Rightarrow> d | None \<Rightarrow> 0)"

definition digitsToInt :: "string \<Rightarrow> int" where
  "digitsToInt ds = foldl (\<lambda>acc c. 10 * acc + digitValue c) 0 ds"

section \<open>JSON values\<close>

text \<open>
  What \<^verbatim>\<open>JSON.parse\<close> returns. An object is the list of its own properties in
  enumeration order; \<^verbatim>\<open>undefined\<close> (a missing property) is \<open>None\<close> of
  \<^typ>\<open>'a option\<close>.
\<close>

datatype json =
    JNull
  | JBool bool
  | JNum int
  | JStr string
  | JArr "json list"
  | JObj "(string \<times> json) list"

type_synonym jsrecord = "(string \<times> json) list"

text \<open>\<^verbatim>\<open>rec[key]\<close> and \<^verbatim>\<open>rec?.[key]\<close>.\<close>

definition getProp :: "jsrecord \<Rightarrow> string \<Rightarrow> json option" where
  "getProp r k = map_of r k"

definition optProp :: "jsrecord option \<Rightarrow> string \<Rightarrow> json option" where
  "optProp r k = (case r of None \<Rightarrow> None | Some obj \<Rightarrow> getProp obj k)"

definition isArray :: "json option \<Rightarrow> bool" where
  "isArray v = (case v of Some (JArr xs) \<Rightarrow> True | _ \<Rightarrow> False)"

definition asRecord :: "json option \<Rightarrow> jsrecord option" where
  "asRecord v = (case v of Some (JObj obj) \<Rightarrow> Some obj | _ \<Rightarrow> None)"

definition valueToInlineString :: "json option \<Rightarrow> string" where
  "valueToInlineString v =
     (case v of
        Some (JStr s) \<Rightarrow> s
      | Some (JNum n) \<Rightarrow> numberToString n
      | Some (JBool b) \<Rightarrow> (if b then ''true'' else ''false'')
      | _ \<Rightarrow> [])"

fun firstInline :: "json option list \<Rightarrow> string" where
  "firstInline [] = []"
| "firstInline (v # vs) =
     (let text = valueToInlineString v in if text \<noteq> [] then text else firstInline vs)"

fun firstDefined :: "json option list \<Rightarrow> json option" where
  "firstDefined [] = None"
| "firstDefined (v # vs) = (if v \<noteq> None \<and> v \<noteq> Some JNull then v else firstDefined vs)"

text \<open>\<^verbatim>\<open>a || b\<close> on strings: the empty string is the only falsy one.\<close>

definition orElse :: "string \<Rightarrow> string \<Rightarrow> string" where
  "orElse a b = (if a \<noteq> [] then a else b)"

section \<open>Levels\<close>

definition isLevelTokenChar :: "char \<Rightarrow> bool" where
  "isLevelTokenChar c = (c \<in> set upperLetters \<or> isDigit c \<or> c = CHR ''_'' \<or> c = CHR ''-'')"

text \<open>\<^verbatim>\<open>/^[A-Z0-9_-]{2,20}$/.test(upper)\<close>\<close>

definition matchesLevelToken :: "string \<Rightarrow> bool" where
  "matchesLevelToken upper = (2 \<le> length upper \<and> length upper \<le> 20 \<and> list_all isLevelTokenChar upper)"

definition normalizeLevel :: "string \<Rightarrow> string" where
  "normalizeLevel v =
     (let upper = toUpperCase v in
      if includesStr upper ''CRITICAL'' \<or> includesStr upper ''FATAL'' then ''CRITICAL''
      else if includesStr upper ''ERROR'' \<or> upper = ''ERR'' then ''ERROR''
      else if includesStr upper ''WARN'' then ''WARNING''
      else if includesStr upper ''DEBUG'' then ''DEBUG''
      else if includesStr upper ''TRACE'' then ''TRACE''
      else if includesStr upper ''INFO'' \<or> upper = ''LOG'' then ''INFO''
      else if matchesLevelToken upper then upper
      else [])"

fun inferLevelLoop :: "json option list \<Rightarrow> string" where
  "inferLevelLoop [] = ''UNKNOWN''"
| "inferLevelLoop (candidate # rest) =
     (let text = valueToInlineString candidate in
      if text = [] then inferLevelLoop rest
      else let normalized = normalizeLevel text in
        if normalized \<noteq> [] then normalized else inferLevelLoop rest)"

definition inferLevel :: "jsrecord \<Rightarrow> jsrecord option \<Rightarrow> jsrecord option \<Rightarrow> string" where
  "inferLevel event data metaData =
     inferLevelLoop
       [optProp metaData ''level'',
        getProp event ''level'',
        getProp event ''severity'',
        optProp data ''level'',
        optProp data ''severity'',
        optProp data ''notificationType'',
        getProp event ''channel'']"

datatype tone = ToneError | ToneWarning | ToneInfo | ToneDebug | ToneTrace | ToneNeutral

definition getLevelTone :: "string \<Rightarrow> tone" where
  "getLevelTone level =
     (let upper = toUpperCase level in
      if includesStr upper ''ERROR'' \<or> includesStr upper ''CRITICAL'' \<or> includesStr upper ''FATAL'' then ToneError
      else if includesStr upper ''WARN'' then ToneWarning
      else if includesStr upper ''DEBUG'' then ToneDebug
      else if includesStr upper ''TRACE'' then ToneTrace
      else if includesStr upper ''INFO'' \<or> includesStr upper ''LOG'' then ToneInfo
      else ToneNeutral)"

section \<open>Level inference as the specification words it\<close>

text \<open>
  The rules of level normalization in their precedence, a rejected candidate being
  \<open>None\<close>. Containment is tested on the upper-cased text, which makes it
  case-insensitive; a custom token is the upper-cased text.
\<close>

definition spec_normalizeLevel :: "string \<Rightarrow> string option" where
  "spec_normalizeLevel text =
     (let u = toUpperCase text in
      if includesStr u ''CRITICAL'' \<or> includesStr u ''FATAL'' then Some ''CRITICAL''
      else if includesStr u ''ERROR'' \<or> u = ''ERR'' then Some ''ERROR''
      else if includesStr u ''WARN'' then Some ''WARNING''
      else if includesStr u ''DEBUG'' then Some ''DEBUG''
      else if includesStr u ''TRACE'' then Some ''TRACE''
      else if includesStr u ''INFO'' \<or> u = ''LOG'' then Some ''INFO''
      else if 2 \<le> length u \<and> length u \<le> 20 \<and> list_all isLevelTokenChar u then Some u
      else None)"

definition spec_levelCandidates :: "jsrecord \<Rightarrow> jsrecord option \<Rightarrow> jsrecord option \<Rightarrow> json option list" where
  "spec_levelCandidates event data metaData =
     [optProp metaData ''level'', getProp event ''level'', getProp event ''severity'',
      optProp data ''level'', optProp data ''severity'', optProp data ''notificationType'',
      getProp event ''channel'']"

text \<open>
  The level is the normalization of the first candidate, in order, that coerces to a
  non-empty text and is not rejected; \<open>UNKNOWN\<close> when there is none.
\<close>

definition spec_inferLevel :: "jsrecord \<Rightarrow> jsrecord option \<Rightarrow> jsrecord option \<Rightarrow> string" where
  "spec_inferLevel event data metaData =
     (case List.find (\<lambda>t. t \<noteq> [] \<and> spec_normalizeLevel t \<noteq> None)
             (map valueToInlineString (spec_levelCandidates event data metaData)) of
        None \<Rightarrow> ''UNKNOWN''
      | Some t \<Rightarrow> the (spec_normalizeLevel t))"

section \<open>Serialization\<close>

text \<open>
  \<^verbatim>\<open>JSON.stringify(value, null, indentation)\<close> on a value that \<^verbatim>\<open>JSON.parse\<close> returned:
  \<open>gap\<close> is the indentation unit (\<open>indentation\<close> spaces) and \<open>ind\<close> the current
  indentation. With an empty gap there is no line break and no space after a colon.
\<close>

definition hexDigit :: "nat \<Rightarrow> char" where
  "hexDigit d = ''0123456789abcdef'' ! d"

definition escapeChar :: "char \<Rightarrow> string" where
  "escapeChar c =
     (if c = DQ then [BSL, DQ]
      else if c = BSL then [BSL, BSL]
      else if c = CHR 0x08 then [BSL, CHR ''b'']
      else if c = CHR 0x0C then [BSL, CHR ''f'']
      else if c = NL then [BSL, CHR ''n'']
      else if c = CHR 0x0D then [BSL, CHR ''r'']
      else if c = CHR 0x09 then [BSL, CHR ''t'']
      else if (of_char c :: nat) < 32
        then [BSL, CHR ''u'', CHR ''0'', CHR ''0'', hexDigit (of_char c div 16), hexDigit (of_char c mod 16)]
      else [c])"

definition quoteJSONString :: "string \<Rightarrow> string" where
  "quoteJSONString s = DQ # concat (map escapeChar s) @ [DQ]"

definition wrapParts :: "string \<Rightarrow> string \<Rightarrow> char \<Rightarrow> char \<Rightarrow> string list \<Rightarrow> string" where
  "wrapParts gap ind opening closing parts =
     (if parts = [] then [opening, closing]
      else if gap = [] then opening # join '','' parts @ [closing]
      else opening # NL # (ind @ gap) @ join (CHR '','' # NL # (ind @ gap)) parts @ NL # ind @ [closing])"

fun serialize :: "string \<Rightarrow> string \<Rightarrow> json \<Rightarrow> string" where
  "serialize gap ind JNull = ''null''"
| "serialize gap ind (JBool b) = (if b then ''true'' else ''false'')"
| "serialize gap ind (JNum n) = numberToString n"
| "serialize gap ind (JStr s) = quoteJSONString s"
| "serialize gap ind (JArr xs) =
     wrapParts gap ind (CHR ''['') (CHR '']'') (map (serialize gap (ind @ gap)) xs)"
| "serialize gap ind (JObj obj) =
     wrapParts gap ind (CHR ''{'') (CHR ''}'')
       (map (\<lambda>kv. quoteJSONString (fst kv) @ CHR '':'' # (if gap = [] then [] else '' '')
                  @ serialize gap (ind @ gap) (snd kv)) obj)"

definition toJsonString :: "json \<Rightarrow> nat \<Rightarrow> string" where
  "toJsonString v indentation = serialize (replicate indentation (CHR '' '')) [] v"

section \<open>Timestamps\<close>

text \<open>
  \<^verbatim>\<open>new Date(ms)\<close> is a valid date when \<open>|ms| \<le> 8.64e15\<close>, and \<^verbatim>\<open>toISOString\<close>
  prints it in UTC as \<open>YYYY-MM-DDTHH:mm:ss.sssZ\<close>, a year outside 0..9999 with a
  sign and six digits.
\<close>

definition validTime :: "int \<Rightarrow> bool" where
  "validTime ms = (\<bar>ms\<bar> \<le> 8640000000000000)"

definition padStart :: "nat \<Rightarrow> string \<Rightarrow> string" where
  "padStart w s = replicate (w - length s) (CHR ''0'') @ s"

definition civilFromDays :: "int \<Rightarrow> int \<times> int \<times> int" where
  "civilFromDays days =
     (let z = days + 719468;
          era = z div 146097;
          doe = z - era * 146097;
          yoe = (doe - doe div 1460 + doe div 36524 - doe div 146096) div 365;
          doy = doe - (365 * yoe + yoe div 4 - yoe div 100);
          mp = (5 * doy + 2) div 153;
          d = doy - (153 * mp + 2) div 5 + 1;
          m = (if mp < 10 then mp + 3 else mp - 9);
          y = yoe + era * 400 + (if m \<le> 2 then 1 else 0)
      in (y, m, d))"

definition toISOString :: "int \<Rightarrow> string" where
  "toISOString ms =
     (let days = ms div 86400000;
          inDay = ms mod 86400000;
          ymd = civilFromDays days;
          y = fst ymd;
          yearText = (if 0 \<le> y \<and> y \<le> 9999 then padStart 4 (intDigits y)
                      else (if y < 0 then ''-'' else ''+'') @ padStart 6 (intDigits \<bar>y\<bar>))
      in yearText @ ''-'' @ padStart 2 (intDigits (fst (snd ymd)))
           @ ''-'' @ padStart 2 (intDigits (snd (snd ymd)))
           @ ''T'' @ padStart 2 (intDigits (inDay div 3600000))
           @ '':'' @ padStart 2 (intDigits (inDay mod 3600000 div 60000))
           @ '':'' @ padStart 2 (intDigits (inDay mod 60000 div 1000))
           @ ''.'' @ padStart 3 (intDigits (inDay mod 1000)) @ ''Z'')"

text \<open>
  \<^verbatim>\<open>normalizeTimestamp\<close>. Every number of the model is finite and whole, so
  \<^verbatim>\<open>Number.isFinite(value)\<close> holds and \<^verbatim>\<open>Math.trunc(value)\<close> is the value.
\<close>

definition normalizeTimestamp :: "json option \<Rightarrow> string" where
  "normalizeTimestamp v =
     (let asText = valueToInlineString v in
      if asText \<noteq> [] then asText
      else case v of
        Some (JNum raw) \<Rightarrow>
          (let milliseconds = (if raw > 99999999999 then raw else raw * 1000) in
           if validTime milliseconds then toISOString milliseconds else numberToString raw)
      | _ \<Rightarrow> ''-'')"

section \<open>Event views\<close>

record EventView =
  uid :: string
  id' :: string
  timestamp :: string
  level :: string
  levelTone :: tone
  application :: string
  context' :: string
  message :: string
  rawJson :: string
  lineTitle :: string
  searchable :: string

definition extractMessage :: "jsrecord \<Rightarrow> jsrecord option \<Rightarrow> string" where
  "extractMessage event data =
     (let text = firstInline
            [optProp data ''message'',
             getProp event ''message'',
             optProp data ''detail'',
             optProp data ''reason'',
             optProp data ''type'',
             optProp data ''eventName'',
             optProp data ''event'',
             getProp event ''topic'',
             getProp event ''type'',
             optProp data ''code'',
             getProp event ''code'']
      in if text \<noteq> [] then text
         else case data of
           Some obj \<Rightarrow>
             (if length obj > 0 then ''Data keys: '' @ join '', '' (take 6 (map fst obj))
              else ''No short message available'')
         | None \<Rightarrow> ''No short message available'')"

definition toEventView :: "json \<Rightarrow> nat \<Rightarrow> EventView" where
  "toEventView eventValue index =
     (let event = (case asRecord (Some eventValue) of Some obj \<Rightarrow> obj | None \<Rightarrow> []);
          data = asRecord (getProp event ''data'');
          metaData = asRecord (getProp event ''metaData'');
          idText = orElse
            (firstInline [getProp event ''id'', getProp event ''eventId'', getProp event ''uuid'',
                          optProp data ''id''])
            (natToString (index + 1));
          ts = normalizeTimestamp
            (firstDefined
               [getProp event ''timestamp'',
                getProp event ''time'',
                getProp event ''created'',
                getProp event ''dateTime'',
                optProp data ''timestamp'',
                optProp data ''time'']);
          lvl = inferLevel event data metaData;
          app = orElse
            (firstInline
               [getProp event ''applicationName'',
                getProp event ''application'',
                getProp event ''channel'',
                getProp event ''source'',
                optProp data ''source'',
                optProp data ''application'',
                optProp data ''provider''])
            ''unknown'';
          ctx = orElse
            (firstInline
               [getProp event ''context'',
                getProp event ''topic'',
                getProp event ''eventType'',
                optProp data ''type'',
                optProp data ''eventName'',
                optProp data ''topic'',
                optProp data ''event''])
            ''none'';
          msg = extractMessage event data;
          compactRaw = toJsonString (JObj event) 0;
          pretty = toJsonString (JObj event) 2;
          searchableRaw = (if length compactRaw > 1800 then take 1800 compactRaw else compactRaw);
          title = ts @ '' | '' @ lvl @ '' | '' @ app @ '' | '' @ ctx @ '' | '' @ msg
      in \<lparr> uid = natToString index @ ''-'' @ idText,
           id' = idText,
           timestamp = ts,
           level = lvl,
           levelTone = getLevelTone lvl,
           application = app,
           context' = ctx,
           message = msg,
           rawJson = pretty,
           lineTitle = title,
           searchable = trim (toLowerCase (idText @ '' '' @ title @ '' '' @ searchableRaw)) \<rparr>)"

section \<open>Parsing\<close>

text \<open>
  \<^verbatim>\<open>JSON.parse\<close>, in two passes: the text is cut into tokens, and the tokens are read by
  a machine with a stack of the arrays and objects still open. Both passes are total
  and \<open>None\<close> is the \<^verbatim>\<open>SyntaxError\<close>. A number token is an integer literal (the
  numbers of the model); a literal with a fraction or an exponent, and a \<^verbatim>\<open>\u\<close>
  escape beyond code unit 255, are outside the model and are not accepted.
\<close>

datatype token =
    TLBrace | TRBrace | TLBracket | TRBracket | TColon | TComma
  | TString string | TNumber int | TTrue | TFalse | TNull

definition isJsonSpace :: "char \<Rightarrow> bool" where
  "isJsonSpace c = (c \<in> set [CHR '' '', CHR 0x09, CHR 0x0A, CHR 0x0D])"

definition hexValue :: "char \<Rightarrow> nat option" where
  "hexValue c = map_of (zip ''0123456789abcdefABCDEF''
     [0, 1, 2, 3, 4, 5, 6, 7, 8, 9, 10, 11, 12, 13, 14, 15, 10, 11, 12, 13, 14, 15]) c"

definition unicodeEscape :: "char \<Rightarrow> char \<Rightarrow> char \<Rightarrow> char \<Rightarrow> char option" where
  "unicodeEscape h1 h2 h3 h4 =
     (case (hexValue h1, hexValue h2, hexValue h3, hexValue h4) of
        (Some a, Some b, Some c, Some d) \<Rightarrow>
          (if a = 0 \<and> b = 0 then Some (char_of (16 * c + d)) else None)
      | _ \<Rightarrow> None)"

definition simpleEscape :: "char \<Rightarrow> char option" where
  "simpleEscape e = map_of
     [(DQ, DQ), (BSL, BSL), (CHR ''/'', CHR ''/''), (CHR ''b'', CHR 0x08), (CHR ''f'', CHR 0x0C),
      (CHR ''n'', NL), (CHR ''r'', CHR 0x0D), (CHR ''t'', CHR 0x09)] e"

definition signed :: "bool \<Rightarrow> int \<Rightarrow> int" where
  "signed negative n = (if negative then - n else n)"

definition endsNumber :: "string \<Rightarrow> bool" where
  "endsNumber rest = (case rest of [] \<Rightarrow> True | c # cs \<Rightarrow> \<not> isDigit c \<and> c \<notin> set ''.eE'')"

fun lexJSON :: "string \<Rightarrow> token list option"
  and lexString :: "string \<Rightarrow> string \<Rightarrow> token list option"
  and lexDigits :: "bool \<Rightarrow> int \<Rightarrow> string \<Rightarrow> token list option"
where
  "lexJSON [] = Some []"
| "lexJSON (c # cs) =
     (if isJsonSpace c then lexJSON cs
      else if c = CHR ''{'' then map_option ((#) TLBrace) (lexJSON cs)
      else if c = CHR ''}'' then map_option ((#) TRBrace) (lexJSON cs)
      else if c = CHR ''['' then map_option ((#) TLBracket) (lexJSON cs)
      else if c = CHR '']'' then map_option ((#) TRBracket) (lexJSON cs)
      else if c = CHR '':'' then map_option ((#) TColon) (lexJSON cs)
      else if c = CHR '','' then map_option ((#) TComma) (lexJSON cs)
      else if c = DQ then lexString [] cs
      else if c = CHR ''-'' then
        (case cs of
           [] \<Rightarrow> None
         | d # ds \<Rightarrow>
             if d = CHR ''0'' then (if endsNumber ds then map_option ((#) (TNumber 0)) (lexJSON ds) else None)
             else if isDigit d then lexDigits True (digitValue d) ds
             else None)
      else if c = CHR ''0'' then (if endsNumber cs then map_option ((#) (TNumber 0)) (lexJSON cs) else None)
      else if isDigit c then lexDigits False (digitValue c) cs
      else if c = CHR ''t'' then
        (case cs of
           r # u # e # rest \<Rightarrow>
             if r = CHR ''r'' \<and> u = CHR ''u'' \<and> e = CHR ''e'' then map_option ((#) TTrue) (lexJSON rest) else None
         | _ \<Rightarrow> None)
      else if c = CHR ''f'' then
        (case cs of
           a # l # s # e # rest \<Rightarrow>
             if a = CHR ''a'' \<and> l = CHR ''l'' \<and> s = CHR ''s'' \<and> e = CHR ''e''
             then map_option ((#) TFalse) (lexJSON rest) else None
         | _ \<Rightarrow> None)
      else if c = CHR ''n'' then
        (case cs of
           u # l # l' # rest \<Rightarrow>
             if u = CHR ''u'' \<and> l = CHR ''l'' \<and> l' = CHR ''l'' then map_option ((#) TNull) (lexJSON rest) else None
         | _ \<Rightarrow> None)
      else None)"
| "lexString acc [] = None"
| "lexString acc (c # cs) =
     (if c = DQ then map_option ((#) (TString (rev acc))) (lexJSON cs)
      else if c = BSL then
        (case cs of
           [] \<Rightarrow> None
         | e # rest \<Rightarrow>
             if e = CHR ''u'' then
               (case rest of
                  h1 # h2 # h3 # h4 # rest' \<Rightarrow>
                    (case unicodeEscape h1 h2 h3 h4 of
                       Some ch \<Rightarrow> lexString (ch # acc) rest'
                     | None \<Rightarrow> None)
                | _ \<Rightarrow> None)
             else (case simpleEscape e of Some ch \<Rightarrow> lexString (ch # acc) rest | None \<Rightarrow> None))
      else if (of_char c :: nat) < 32 then None
      else lexString (c # acc) cs)"
| "lexDigits negative acc [] = Some [TNumber (signed negative acc)]"
| "lexDigits negative acc (c # cs) =
     (if isDigit c then lexDigits negative (10 * acc + digitValue c) cs
      else if c \<in> set ''.eE'' then None
      else map_option ((#) (TNumber (signed negative acc))) (lexJSON (c # cs)))"

text \<open>
  The own properties of an object are enumerated with the array indices first, in
  ascending order, and then the other keys in the order of their creation; a member
  that repeats a key replaces the value where the key stands.
\<close>

definition isArrayIndex :: "string \<Rightarrow> bool" where
  "isArrayIndex k = (k \<noteq> [] \<and> list_all isDigit k \<and> (k = ''0'' \<or> hd k \<noteq> CHR ''0'')
     \<and> digitsToInt k < 4294967295)"

fun insertIndex :: "string \<Rightarrow> json \<Rightarrow> jsrecord \<Rightarrow> jsrecord" where
  "insertIndex k v [] = [(k, v)]"
| "insertIndex k v (kv # rest) =
     (if isArrayIndex (fst kv) \<and> digitsToInt (fst kv) < digitsToInt k then kv # insertIndex k v rest
      else (k, v) # kv # rest)"

definition objPut :: "jsrecord \<Rightarrow> string \<Rightarrow> json \<Rightarrow> jsrecord" where
  "objPut obj k v =
     (if k \<in> set (map fst obj) then map (\<lambda>kv. if fst kv = k then (k, v) else kv) obj
      else if isArrayIndex k then insertIndex k v obj
      else obj @ [(k, v)])"

datatype frame = FArr "json list" | FObj jsrecord string

datatype pstate =
    PValue "frame list"
  | PArrStart "frame list"
  | PObjStart "frame list"
  | PInArr "json list" "frame list"
  | PInObj jsrecord "frame list"
  | PKey jsrecord "frame list"
  | PColon jsrecord string "frame list"
  | PEnd json
  | PFail

fun deliver :: "json \<Rightarrow> frame list \<Rightarrow> pstate" where
  "deliver v [] = PEnd v"
| "deliver v (FArr xs # fs) = PInArr (xs @ [v]) fs"
| "deliver v (FObj obj k # fs) = PInObj (objPut obj k v) fs"

fun startValue :: "frame list \<Rightarrow> token \<Rightarrow> pstate" where
  "startValue fs TLBrace = PObjStart fs"
| "startValue fs TLBracket = PArrStart fs"
| "startValue fs (TString s) = deliver (JStr s) fs"
| "startValue fs (TNumber n) = deliver (JNum n) fs"
| "startValue fs TTrue = deliver (JBool True) fs"
| "startValue fs TFalse = deliver (JBool False) fs"
| "startValue fs TNull = deliver JNull fs"
| "startValue fs _ = PFail"

fun pstep :: "pstate \<Rightarrow> token \<Rightarrow> pstate" where
  "pstep (PValue fs) t = startValue fs t"
| "pstep (PArrStart fs) t = (if t = TRBracket then deliver (JArr []) fs else startValue (FArr [] # fs) t)"
| "pstep (PObjStart fs) t =
     (case t of TRBrace \<Rightarrow> deliver (JObj []) fs | TString k \<Rightarrow> PColon [] k fs | _ \<Rightarrow> PFail)"
| "pstep (PInArr xs fs) t =
     (case t of TComma \<Rightarrow> PValue (FArr xs # fs) | TRBracket \<Rightarrow> deliver (JArr xs) fs | _ \<Rightarrow> PFail)"
| "pstep (PInObj obj fs) t =
     (case t of TComma \<Rightarrow> PKey obj fs | TRBrace \<Rightarrow> deliver (JObj obj) fs | _ \<Rightarrow> PFail)"
| "pstep (PKey obj fs) t = (case t of TString k \<Rightarrow> PColon obj k fs | _ \<Rightarrow> PFail)"
| "pstep (PColon obj k fs) t = (case t of TColon \<Rightarrow> PValue (FObj obj k # fs) | _ \<Rightarrow> PFail)"
| "pstep (PEnd v) t = PFail"
| "pstep PFail t = PFail"

definition parseTokens :: "token list \<Rightarrow> json option" where
  "parseTokens ts = (case foldl pstep (PValue []) ts of PEnd v \<Rightarrow> Some v | _ \<Rightarrow> None)"

definition jsonParse :: "string \<Rightarrow> json option" where
  "jsonParse s = (case lexJSON s of None \<Rightarrow> None | Some ts \<Rightarrow> parseTokens ts)"

section \<open>The platform\<close>

text \<open>
  Two things the component takes from its JavaScript engine and that no source file
  fixes: the collation order behind \<^verbatim>\<open>localeCompare\<close> (negative, zero or positive),
  and the message of the \<^verbatim>\<open>SyntaxError\<close> that \<^verbatim>\<open>JSON.parse\<close> throws for a text.
\<close>

record platform =
  localeCompare :: "string \<Rightarrow> string \<Rightarrow> int"
  syntaxErrorMessage :: "string \<Rightarrow> string"

text \<open>
  \<^verbatim>\<open>array.sort(compare)\<close>: the sort is stable, an element going before the first
  one it does not compare greater than.
\<close>

fun insertSorted :: "('a \<Rightarrow> 'a \<Rightarrow> int) \<Rightarrow> 'a \<Rightarrow> 'a list \<Rightarrow> 'a list" where
  "insertSorted compare x [] = [x]"
| "insertSorted compare x (y # ys) =
     (if compare x y \<le> 0 then x # y # ys else y # insertSorted compare x ys)"

definition sortWith :: "('a \<Rightarrow> 'a \<Rightarrow> int) \<Rightarrow> 'a list \<Rightarrow> 'a list" where
  "sortWith compare xs = foldr (insertSorted compare) xs []"

text \<open>\<^verbatim>\<open>Array.from(new Set(values))\<close>: the values in the order of their first occurrence.\<close>

definition fromSet :: "'a list \<Rightarrow> 'a list" where
  "fromSet values = foldl (\<lambda>seen v. if v \<in> set seen then seen else seen @ [v]) [] values"

definition uniqueOptions :: "platform \<Rightarrow> string list \<Rightarrow> string list" where
  "uniqueOptions pf values = sortWith (localeCompare pf) (fromSet values)"

section \<open>Event collection\<close>

function looksLikeLoop :: "json list \<Rightarrow> nat \<Rightarrow> nat \<Rightarrow> nat \<Rightarrow> nat" where
  "looksLikeLoop values sampleSize i matches =
     (if i < sampleSize then
        (case asRecord (Some (values ! i)) of
           None \<Rightarrow> looksLikeLoop values sampleSize (i + 1) matches
         | Some entry \<Rightarrow>
             if getProp entry ''timestamp'' \<noteq> None \<or>
                getProp entry ''topic'' \<noteq> None \<or>
                getProp entry ''message'' \<noteq> None \<or>
                getProp entry ''event'' \<noteq> None \<or>
                getProp entry ''data'' \<noteq> None
             then looksLikeLoop values sampleSize (i + 1) (matches + 1)
             else looksLikeLoop values sampleSize (i + 1) matches)
      else matches)"
  by pat_completeness auto
termination
  by (relation "measure (\<lambda>(values, sampleSize, i, matches). sampleSize - i)") auto

declare looksLikeLoop.simps [simp del]

definition looksLikeEventArray :: "json list \<Rightarrow> bool" where
  "looksLikeEventArray values = (looksLikeLoop values (min (length values) 20) 0 0 \<ge> 1)"

fun firstArray :: "json option list \<Rightarrow> json list option" where
  "firstArray [] = None"
| "firstArray (candidate # rest) =
     (case candidate of Some (JArr xs) \<Rightarrow> Some xs | _ \<Rightarrow> firstArray rest)"

fun firstEventArray :: "json list \<Rightarrow> json list" where
  "firstEventArray [] = []"
| "firstEventArray (v # rest) =
     (case v of
        JArr xs \<Rightarrow> (if looksLikeEventArray xs then xs else firstEventArray rest)
      | _ \<Rightarrow> firstEventArray rest)"

definition extractEvents :: "json \<Rightarrow> jsrecord option \<Rightarrow> json list" where
  "extractEvents parsed rootRecord =
     (case parsed of
        JArr xs \<Rightarrow> xs
      | _ \<Rightarrow>
        (let dataRecord = asRecord (optProp rootRecord ''data'');
             payloadRecord = asRecord (optProp rootRecord ''payload'');
             directCandidates =
               [optProp rootRecord ''events'',
                optProp rootRecord ''logs'',
                optProp rootRecord ''records'',
                optProp rootRecord ''entries'',
                optProp rootRecord ''items'',
                optProp dataRecord ''events'',
                optProp dataRecord ''logs'',
                optProp payloadRecord ''events'',
                optProp payloadRecord ''logs'']
         in case firstArray directCandidates of
              Some xs \<Rightarrow> xs
            | None \<Rightarrow>
                (case rootRecord of
                   Some obj \<Rightarrow> firstEventArray (map snd obj)
                 | None \<Rightarrow> [])))"

fun inferApplicationLoop :: "json list \<Rightarrow> string" where
  "inferApplicationLoop [] = []"
| "inferApplicationLoop (e # rest) =
     (let event = asRecord (Some e);
          data = asRecord (optProp event ''data'');
          app = firstInline
            [optProp event ''applicationName'',
             optProp event ''application'',
             optProp event ''channel'',
             optProp event ''source'',
             optProp data ''source'']
      in if app \<noteq> [] then app else inferApplicationLoop rest)"

definition inferApplicationFromEvents :: "json list \<Rightarrow> string" where
  "inferApplicationFromEvents events = inferApplicationLoop (take (min (length events) 100) events)"

section \<open>Metadata\<close>

record JsonPreviewTarget =
  rawValue :: json
  rawJsonCache :: "string option"

record MetaEntry = JsonPreviewTarget +
  key :: string
  value' :: string

record PrettyFact =
  label :: string
  value' :: string

record PrettyMetadataBlock = JsonPreviewTarget +
  key :: string
  title :: string
  subtitle :: string
  facts :: "PrettyFact list"
  highlights :: "string list"

definition extractMetaRecord :: "jsrecord option \<Rightarrow> jsrecord option" where
  "extractMetaRecord rootRecord =
     (case asRecord (optProp rootRecord ''meta'') of
        Some m \<Rightarrow> Some m
      | None \<Rightarrow>
        (case asRecord (optProp rootRecord ''metadata'') of
           Some m \<Rightarrow> Some m
         | None \<Rightarrow> asRecord (optProp rootRecord ''header'')))"

definition summarizeMetaValue :: "json \<Rightarrow> string" where
  "summarizeMetaValue v =
     (let inlineValue = valueToInlineString (Some v) in
      if inlineValue \<noteq> [] then
        (if length inlineValue > 180 then take 177 inlineValue @ ''...'' else inlineValue)
      else case v of
        JArr xs \<Rightarrow> ''Array('' @ natToString (length xs) @ '')''
      | JObj obj \<Rightarrow>
          (let keys = map fst obj;
               preview = join '', '' (take 5 keys);
               suffix = (if length keys > 5 then '', ...'' else [])
           in ''Object('' @ natToString (length keys) @ '' keys): '' @ preview @ suffix)
      | _ \<Rightarrow> toJsonString v 0)"

definition prettyMetaKeys :: "string list" where
  "prettyMetaKeys = [''browser'', ''agent'', ''settings'', ''templates'', ''widgets'']"

definition extractMetaEntries :: "platform \<Rightarrow> jsrecord option \<Rightarrow> MetaEntry list" where
  "extractMetaEntries pf metaValue =
     (case metaValue of
        None \<Rightarrow> []
      | Some obj \<Rightarrow>
          map (\<lambda>kv. \<lparr> rawValue = snd kv, rawJsonCache = None,
                       MetaEntry.key = fst kv, MetaEntry.value' = summarizeMetaValue (snd kv) \<rparr>)
            (sortWith (\<lambda>l r. localeCompare pf (fst l) (fst r))
               (filter (\<lambda>kv. fst kv \<notin> set prettyMetaKeys) obj)))"

subsection \<open>Pretty blocks\<close>

definition toRecordArray :: "json option \<Rightarrow> jsrecord list" where
  "toRecordArray v =
     (case v of
        Some (JArr xs) \<Rightarrow> List.map_filter (\<lambda>item. asRecord (Some item)) xs
      | _ \<Rightarrow> [])"

fun compactHighlights :: "string list \<Rightarrow> string list" where
  "compactHighlights [] = []"
| "compactHighlights (v # rest) =
     (let trimmed = trim v in
      if trimmed = [] then compactHighlights rest
      else (if length trimmed > 140 then take 137 trimmed @ ''...'' else trimmed)
           # compactHighlights rest)"

text \<open>
  \<^verbatim>\<open>prettyLabel\<close>: a space between a lower-case letter or digit and the capital that
  follows it, each run of underscores and hyphens turned into one space, and the first
  character of every word in upper case.
\<close>

fun splitCamel :: "string \<Rightarrow> string" where
  "splitCamel (a # b # rest) =
     (if (a \<in> set lowerLetters \<or> isDigit a) \<and> b \<in> set upperLetters
      then a # CHR '' '' # b # splitCamel rest
      else a # splitCamel (b # rest))"
| "splitCamel s = s"

fun spaceSeparators :: "bool \<Rightarrow> string \<Rightarrow> string" where
  "spaceSeparators insideRun [] = []"
| "spaceSeparators insideRun (c # rest) =
     (if c = CHR ''_'' \<or> c = CHR ''-''
      then (if insideRun then spaceSeparators True rest else CHR '' '' # spaceSeparators True rest)
      else c # spaceSeparators False rest)"

definition isWordChar :: "char \<Rightarrow> bool" where
  "isWordChar c = (c \<in> set lowerLetters \<or> c \<in> set upperLetters \<or> isDigit c \<or> c = CHR ''_'')"

fun capitalizeWords :: "bool \<Rightarrow> string \<Rightarrow> string" where
  "capitalizeWords insideWord [] = []"
| "capitalizeWords insideWord (c # rest) =
     (if isWordChar c \<and> \<not> insideWord then toUpperChar c # capitalizeWords True rest
      else c # capitalizeWords (isWordChar c) rest)"

definition prettyLabel :: "string \<Rightarrow> string" where
  "prettyLabel k = capitalizeWords False (spaceSeparators False (splitCamel k))"

definition prettyValue :: "json option \<Rightarrow> string" where
  "prettyValue v =
     (let inlineValue = valueToInlineString v in
      if inlineValue \<noteq> [] then inlineValue
      else case v of
        Some (JArr xs) \<Rightarrow>
          (let items = take 5 (filter (\<lambda>item. item \<noteq> [])
                                 (map (\<lambda>item. valueToInlineString (Some item)) xs))
           in if length items = 0 then ''Array('' @ natToString (length xs) @ '')''
              else join '', '' items @ (if length xs > length items then '', ...'' else []))
      | Some (JObj obj) \<Rightarrow> ''Object('' @ natToString (length obj) @ '')''
      | _ \<Rightarrow> ''n/a'')"

definition buildBrowserBlock :: "jsrecord \<Rightarrow> PrettyMetadataBlock" where
  "buildBrowserBlock browser =
     (let os = asRecord (getProp browser ''os'');
          browserName = orElse (firstInline [getProp browser ''name'', getProp browser ''description''])
                               ''Unknown'';
          browserVersion = orElse (valueToInlineString (getProp browser ''version'')) ''n/a''
      in \<lparr> rawValue = JObj browser, rawJsonCache = None,
           key = ''browser'',
           title = ''Browser'',
           subtitle = trim (browserName @ '' '' @ browserVersion),
           facts =
             [\<lparr> label = ''Name'', value' = orElse (valueToInlineString (getProp browser ''name'')) ''unknown'' \<rparr>,
              \<lparr> label = ''Version'', value' = browserVersion \<rparr>,
              \<lparr> label = ''Layout Engine'', value' = orElse (valueToInlineString (getProp browser ''layout'')) ''n/a'' \<rparr>,
              \<lparr> label = ''OS'',
                value' = orElse (firstInline [optProp os ''family'', optProp os ''name'',
                                              getProp browser ''platform'']) ''unknown'' \<rparr>,
              \<lparr> label = ''OS Version'', value' = orElse (valueToInlineString (optProp os ''version'')) ''n/a'' \<rparr>,
              \<lparr> label = ''Architecture'', value' = orElse (valueToInlineString (optProp os ''architecture'')) ''n/a'' \<rparr>],
           highlights = compactHighlights
             [valueToInlineString (getProp browser ''description''),
              valueToInlineString (getProp browser ''ua'')] \<rparr>)"

definition buildAgentBlock :: "jsrecord \<Rightarrow> PrettyMetadataBlock" where
  "buildAgentBlock agent =
     (let reasonCodes = toRecordArray (getProp agent ''reasonCodes'');
          reasonNames = filter (\<lambda>name. name \<noteq> [])
            (map (\<lambda>reason. firstInline [getProp reason ''friendlyName'', getProp reason ''code'']) reasonCodes);
          name = orElse
            (firstInline
               [getProp agent ''displayName'',
                Some (JStr (trim (valueToInlineString (getProp agent ''firstName'') @ '' '' @
                                  valueToInlineString (getProp agent ''lastName''))))])
            ''Unknown Agent''
      in \<lparr> rawValue = JObj agent, rawJsonCache = None,
           key = ''agent'',
           title = ''Agent'',
           subtitle = name,
           facts =
             [\<lparr> label = ''Handle'', value' = orElse (valueToInlineString (getProp agent ''handle'')) ''n/a'' \<rparr>,
              \<lparr> label = ''Role'', value' = orElse (valueToInlineString (getProp agent ''role'')) ''n/a'' \<rparr>,
              \<lparr> label = ''State'', value' = orElse (valueToInlineString (getProp agent ''state'')) ''n/a'' \<rparr>,
              \<lparr> label = ''Channel'', value' = orElse (valueToInlineString (getProp agent ''channel'')) ''n/a'' \<rparr>,
              \<lparr> label = ''Station'', value' = orElse (valueToInlineString (getProp agent ''stationId'')) ''n/a'' \<rparr>,
              \<lparr> label = ''Agent ID'', value' = orElse (valueToInlineString (getProp agent ''agentId'')) ''n/a'' \<rparr>,
              \<lparr> label = ''Provider'', value' = orElse (valueToInlineString (getProp agent ''providerId'')) ''n/a'' \<rparr>,
              \<lparr> label = ''Reason Codes'', value' = natToString (length reasonCodes) \<rparr>],
           highlights = compactHighlights (take 10 reasonNames) \<rparr>)"

definition settingsSelectedKeys :: "string list" where
  "settingsSelectedKeys =
     [''environmentType'',
      ''websocketsEnabled'',
      ''hotdesk'',
      ''isWebRTC'',
      ''displayCanvasOnAlerting'',
      ''workspacesLogsDownloadEnabled'',
      ''workspacesLogsDataPrivacyEnabled'',
      ''forceRefreshRate'',
      ''maxDeferTime'',
      ''customerManagementFQDN'',
      ''pomWidgetLocation'']"

definition buildSettingsBlock :: "jsrecord \<Rightarrow> PrettyMetadataBlock" where
  "buildSettingsBlock settings =
     (let settingFacts = filter (\<lambda>fact. PrettyFact.value' fact \<noteq> ''n/a'')
            (map (\<lambda>k. \<lparr> label = prettyLabel k, value' = prettyValue (getProp settings k) \<rparr>)
                 settingsSelectedKeys);
          deferIntervals = prettyValue (getProp settings ''deferTimeIntervals'');
          settingsEntries = length settings
      in \<lparr> rawValue = JObj settings, rawJsonCache = None,
           key = ''settings'',
           title = ''Settings'',
           subtitle = natToString settingsEntries @ '' settings entries'',
           facts = settingFacts,
           highlights = compactHighlights [''Defer intervals: '' @ deferIntervals] \<rparr>)"

text \<open>
  The walks over a template's layout: each role layout of \<open>layout\<close>, its \<open>tabs\<close>
  object, and each tab's \<open>widgets\<close> array.
\<close>

definition roleTabs :: "jsrecord \<Rightarrow> jsrecord list" where
  "roleTabs template =
     (case asRecord (getProp template ''layout'') of
        None \<Rightarrow> []
      | Some layout \<Rightarrow>
          List.map_filter (\<lambda>roleLayoutValue. asRecord (optProp (asRecord (Some roleLayoutValue)) ''tabs''))
            (map snd layout))"

definition countTemplateTabs :: "jsrecord \<Rightarrow> nat" where
  "countTemplateTabs template = foldl (\<lambda>count tabs. count + length tabs) 0 (roleTabs template)"

definition tabWidgets :: "json \<Rightarrow> json list option" where
  "tabWidgets tabValue =
     (case optProp (asRecord (Some tabValue)) ''widgets'' of Some (JArr widgets) \<Rightarrow> Some widgets | _ \<Rightarrow> None)"

definition countTemplateWidgetRefs :: "jsrecord \<Rightarrow> nat" where
  "countTemplateWidgetRefs template =
     foldl (\<lambda>count tabs.
              foldl (\<lambda>count' tabValue.
                       case tabWidgets tabValue of Some widgets \<Rightarrow> count' + length widgets | None \<Rightarrow> count')
                    count (map snd tabs))
           0 (roleTabs template)"

definition extractTemplateWidgetNames :: "jsrecord list \<Rightarrow> string list" where
  "extractTemplateWidgetNames templates =
     foldl (\<lambda>names template.
              foldl (\<lambda>names' tabs.
                       foldl (\<lambda>names'' tabValue.
                                case tabWidgets tabValue of
                                  None \<Rightarrow> names''
                                | Some widgets \<Rightarrow>
                                    names'' @ filter (\<lambda>text. text \<noteq> [])
                                                (map (\<lambda>widget. valueToInlineString (Some widget)) widgets))
                             names' (map snd tabs))
                    names (roleTabs template))
           [] templates"

record templateTotals =
  coreCount :: nat
  compressedCount :: nat
  totalTabs :: nat
  totalWidgetRefs :: nat

definition countTemplate :: "templateTotals \<Rightarrow> jsrecord \<Rightarrow> templateTotals" where
  "countTemplate totals template =
     \<lparr> coreCount = coreCount totals + (if getProp template ''core'' = Some (JBool True) then 1 else 0),
       compressedCount = compressedCount totals +
         (if getProp template ''useCompressedWorkspaces'' = Some (JBool True) then 1 else 0),
       totalTabs = totalTabs totals + countTemplateTabs template,
       totalWidgetRefs = totalWidgetRefs totals + countTemplateWidgetRefs template \<rparr>"

definition buildTemplatesBlock :: "jsrecord list \<Rightarrow> PrettyMetadataBlock" where
  "buildTemplatesBlock templates =
     (let templateNames = filter (\<lambda>name. name \<noteq> [])
            (map (\<lambda>template. firstInline [getProp template ''name'', getProp template ''id'']) templates);
          totals = foldl countTemplate
            \<lparr> coreCount = 0, compressedCount = 0, totalTabs = 0, totalWidgetRefs = 0 \<rparr> templates
      in \<lparr> rawValue = JArr (map JObj templates), rawJsonCache = None,
           key = ''templates'',
           title = ''Templates'',
           subtitle = natToString (length templates) @ '' templates'',
           facts =
             [\<lparr> label = ''Core Templates'', value' = natToString (coreCount totals) \<rparr>,
              \<lparr> label = ''Compressed Layouts'', value' = natToString (compressedCount totals) \<rparr>,
              \<lparr> label = ''Total Tabs'', value' = natToString (totalTabs totals) \<rparr>,
              \<lparr> label = ''Widget References'', value' = natToString (totalWidgetRefs totals) \<rparr>],
           highlights = compactHighlights (take 10 templateNames) \<rparr>)"

definition parseWidgetCatalog :: "string \<Rightarrow> jsrecord list" where
  "parseWidgetCatalog rawWidgets =
     (if rawWidgets = [] then []
      else case jsonParse rawWidgets of
        Some (JArr parsed) \<Rightarrow>
          List.map_filter
            (\<lambda>entry.
               case asRecord (Some entry) of
                 None \<Rightarrow> None
               | Some widget \<Rightarrow>
                   (let metadata = asRecord (getProp widget ''metadata'');
                        configuration = asRecord (getProp widget ''configuration'')
                    in Some
                      [(''name'', JStr (firstInline [optProp metadata ''name'', optProp configuration ''name'',
                                                     getProp widget ''name''])),
                       (''metadataName'', JStr (valueToInlineString (optProp metadata ''name''))),
                       (''description'', JStr (valueToInlineString (optProp metadata ''description''))),
                       (''library'', JStr (orElse (valueToInlineString (optProp metadata ''libraryName''))
                                                  (valueToInlineString (optProp metadata ''library'')))),
                       (''enabled'', JBool (optProp configuration ''enabled'' = Some (JBool True)))]))
            parsed
      | _ \<Rightarrow> [])"

definition buildWidgetsBlock :: "jsrecord \<Rightarrow> jsrecord list \<Rightarrow> PrettyMetadataBlock option" where
  "buildWidgetsBlock meta templates =
     (let localStorage = asRecord (getProp meta ''localStorage'');
          widgetsRaw = valueToInlineString (optProp localStorage ''_cc.widgets'');
          widgetCatalog = parseWidgetCatalog widgetsRaw;
          templateWidgetNames = extractTemplateWidgetNames templates;
          catalogWidgetNames = filter (\<lambda>name. name \<noteq> [])
            (map (\<lambda>widget. firstInline [getProp widget ''name'', getProp widget ''metadataName'']) widgetCatalog);
          uniqueNames = fromSet (catalogWidgetNames @ templateWidgetNames)
      in if length widgetCatalog = 0 \<and> length uniqueNames = 0 then None
         else Some
           \<lparr> rawValue = JObj [(''widgetCatalog'', JArr (map JObj widgetCatalog)),
                               (''templateWidgetNames'', JArr (map JStr templateWidgetNames))],
             rawJsonCache = None,
             key = ''widgets'',
             title = ''Widgets'',
             subtitle = natToString (length uniqueNames) @ '' unique widget names'',
             facts =
               [\<lparr> label = ''Widget Catalog'', value' = natToString (length widgetCatalog) \<rparr>,
                \<lparr> label = ''Template Widget Refs'', value' = natToString (length templateWidgetNames) \<rparr>,
                \<lparr> label = ''Unique Names'', value' = natToString (length uniqueNames) \<rparr>],
             highlights = compactHighlights (take 12 uniqueNames) \<rparr>)"

definition buildPrettyMetaBlocks :: "jsrecord option \<Rightarrow> PrettyMetadataBlock list" where
  "buildPrettyMetaBlocks metaValue =
     (case metaValue of
        None \<Rightarrow> []
      | Some meta \<Rightarrow>
          (let templates = toRecordArray (getProp meta ''templates'') in
           (case asRecord (getProp meta ''browser'') of Some browser \<Rightarrow> [buildBrowserBlock browser] | None \<Rightarrow> [])
           @ (case asRecord (getProp meta ''agent'') of Some agent \<Rightarrow> [buildAgentBlock agent] | None \<Rightarrow> [])
           @ (case asRecord (getProp meta ''settings'') of
                Some settings \<Rightarrow> [buildSettingsBlock settings] | None \<Rightarrow> [])
           @ (if length templates > 0 then [buildTemplatesBlock templates] else [])
           @ (case buildWidgetsBlock meta templates of Some widgetBlock \<Rightarrow> [widgetBlock] | None \<Rightarrow> [])))"

section \<open>The component\<close>

text \<open>
  The fields of \<^verbatim>\<open>AppComponent\<close> (its constant \<^verbatim>\<open>title\<close> left out). Every method is
  a function from the state before to the state after.
\<close>

record AppComponent =
  fileName :: string
  parseError :: string
  applicationName :: string
  totalEvents :: nat
  metaEntries :: "MetaEntry list"
  prettyMetaBlocks :: "PrettyMetadataBlock list"
  searchText :: string
  selectedLevels :: "string list"
  selectedApplications :: "string list"
  selectedContexts :: "string list"
  levelOptions :: "string list"
  applicationOptions :: "string list"
  contextOptions :: "string list"
  isLoaded :: bool
  expandedEventUid :: "string option"
  expandedMetaKey :: "string option"
  filteredEvents :: "EventView list"
  eventViews :: "EventView list"

definition initialState :: AppComponent where
  "initialState =
     \<lparr> fileName = [],
       parseError = [],
       applicationName = ''-'',
       totalEvents = 0,
       metaEntries = [],
       prettyMetaBlocks = [],
       searchText = [],
       selectedLevels = [],
       selectedApplications = [],
       selectedContexts = [],
       levelOptions = [],
       applicationOptions = [],
       contextOptions = [],
       isLoaded = False,
       expandedEventUid = None,
       expandedMetaKey = None,
       filteredEvents = [],
       eventViews = [] \<rparr>"

definition matchesFilters :: "AppComponent \<Rightarrow> string \<Rightarrow> EventView \<Rightarrow> bool" where
  "matchesFilters st searchTerm event =
     (let matchesSearch = (searchTerm = [] \<or> includesStr (searchable event) searchTerm);
          matchesLevel = (length (selectedLevels st) = 0 \<or> level event \<in> set (selectedLevels st));
          matchesApplication =
            (length (selectedApplications st) = 0 \<or> application event \<in> set (selectedApplications st));
          matchesContext =
            (length (selectedContexts st) = 0 \<or> context' event \<in> set (selectedContexts st))
      in matchesSearch \<and> matchesLevel \<and> matchesApplication \<and> matchesContext)"

definition applyFilters :: "AppComponent \<Rightarrow> AppComponent" where
  "applyFilters st =
     (let searchTerm = toLowerCase (trim (searchText st));
          st1 = st\<lparr> filteredEvents := filter (matchesFilters st searchTerm) (eventViews st) \<rparr>
      in if \<not> list_ex (\<lambda>event. Some (uid event) = expandedEventUid st1) (filteredEvents st1)
         then st1\<lparr> expandedEventUid := None \<rparr>
         else st1)"

definition onFilterChange :: "AppComponent \<Rightarrow> AppComponent" where
  "onFilterChange st = applyFilters st"

definition clearFilters :: "AppComponent \<Rightarrow> AppComponent" where
  "clearFilters st =
     applyFilters (st\<lparr> searchText := [], selectedLevels := [], selectedApplications := [],
                       selectedContexts := [] \<rparr>)"

datatype filterType = LevelFilter | ApplicationFilter | ContextFilter

definition toggleSelection :: "string list \<Rightarrow> string \<Rightarrow> bool \<Rightarrow> string list" where
  "toggleSelection values option checked =
     (let hasOption = (option \<in> set values) in
      if checked \<and> \<not> hasOption then values @ [option]
      else if \<not> checked \<and> hasOption then filter (\<lambda>v. v \<noteq> option) values
      else values)"

definition toggleFilterOption :: "filterType \<Rightarrow> string \<Rightarrow> bool \<Rightarrow> AppComponent \<Rightarrow> AppComponent" where
  "toggleFilterOption ft option checked st =
     applyFilters
       (case ft of
          LevelFilter \<Rightarrow> st\<lparr> selectedLevels := toggleSelection (selectedLevels st) option checked \<rparr>
        | ApplicationFilter \<Rightarrow>
            st\<lparr> selectedApplications := toggleSelection (selectedApplications st) option checked \<rparr>
        | ContextFilter \<Rightarrow>
            st\<lparr> selectedContexts := toggleSelection (selectedContexts st) option checked \<rparr>)"

definition isFilterOptionSelected :: "filterType \<Rightarrow> string \<Rightarrow> AppComponent \<Rightarrow> bool" where
  "isFilterOptionSelected ft option st =
     (case ft of
        LevelFilter \<Rightarrow> option \<in> set (selectedLevels st)
      | ApplicationFilter \<Rightarrow> option \<in> set (selectedApplications st)
      | ContextFilter \<Rightarrow> option \<in> set (selectedContexts st))"

definition toggleEventJson :: "string \<Rightarrow> AppComponent \<Rightarrow> AppComponent" where
  "toggleEventJson eventUid st =
     st\<lparr> expandedEventUid := (if expandedEventUid st = Some eventUid then None else Some eventUid) \<rparr>"

definition isEventExpanded :: "string \<Rightarrow> AppComponent \<Rightarrow> bool" where
  "isEventExpanded eventUid st = (expandedEventUid st = Some eventUid)"

definition toggleMetaJson :: "string \<Rightarrow> AppComponent \<Rightarrow> AppComponent" where
  "toggleMetaJson metaKey st =
     st\<lparr> expandedMetaKey := (if expandedMetaKey st = Some metaKey then None else Some metaKey) \<rparr>"

definition isMetaExpanded :: "string \<Rightarrow> AppComponent \<Rightarrow> bool" where
  "isMetaExpanded metaKey st = (expandedMetaKey st = Some metaKey)"

text \<open>\<^verbatim>\<open>getMetaRawJson\<close> returns the text and the target with its cache filled.\<close>

definition getMetaRawJson :: "'a JsonPreviewTarget_scheme \<Rightarrow> string \<times> 'a JsonPreviewTarget_scheme" where
  "getMetaRawJson target =
     (case rawJsonCache target of
        Some cached \<Rightarrow>
          if cached \<noteq> [] then (cached, target)
          else (let maxChars = 120000;
                    raw = toJsonString (rawValue target) 2;
                    text = (if length raw > maxChars
                            then take maxChars raw @ NL # ''... [truncated at 120000 characters]''
                            else raw)
                in (text, target\<lparr> rawJsonCache := Some text \<rparr>))
      | None \<Rightarrow>
          (let maxChars = 120000;
               raw = toJsonString (rawValue target) 2;
               text = (if length raw > maxChars
                       then take maxChars raw @ NL # ''... [truncated at 120000 characters]''
                       else raw)
           in (text, target\<lparr> rawJsonCache := Some text \<rparr>)))"

definition resetViewerState :: "AppComponent \<Rightarrow> AppComponent" where
  "resetViewerState st =
     st\<lparr> fileName := [],
         applicationName := ''-'',
         totalEvents := 0,
         prettyMetaBlocks := [],
         metaEntries := [],
         searchText := [],
         selectedLevels := [],
         selectedApplications := [],
         selectedContexts := [],
         levelOptions := [],
         applicationOptions := [],
         contextOptions := [],
         eventViews := [],
         filteredEvents := [],
         expandedEventUid := None,
         expandedMetaKey := None,
         isLoaded := False \<rparr>"

text \<open>\<^verbatim>\<open>events.map((event, index) => this.toEventView(event, index))\<close>\<close>

definition mapIndexed :: "('a \<Rightarrow> nat \<Rightarrow> 'b) \<Rightarrow> 'a list \<Rightarrow> 'b list" where
  "mapIndexed f xs = map (\<lambda>ix. f (snd ix) (fst ix)) (enumerate 0 xs)"

definition processJson :: "platform \<Rightarrow> json \<Rightarrow> string \<Rightarrow> AppComponent \<Rightarrow> AppComponent" where
  "processJson pf parsed name st =
     (let st0 = resetViewerState st;
          rootRecord = asRecord (Some parsed);
          events = extractEvents parsed rootRecord;
          meta = extractMetaRecord rootRecord;
          appName = orElse
            (orElse
               (firstInline
                  [optProp rootRecord ''application'',
                   optProp rootRecord ''applicationName'',
                   optProp meta ''application'',
                   optProp meta ''environmentType''])
               (inferApplicationFromEvents events))
            ''unknown'';
          views = mapIndexed toEventView events
      in applyFilters
           (st0\<lparr> fileName := name,
                 applicationName := appName,
                 prettyMetaBlocks := buildPrettyMetaBlocks meta,
                 metaEntries := extractMetaEntries pf meta,
                 eventViews := views,
                 totalEvents := length views,
                 levelOptions := uniqueOptions pf (map level views),
                 applicationOptions := uniqueOptions pf (map application views),
                 contextOptions := uniqueOptions pf (map context' views),
                 isLoaded := True \<rparr>))"

text \<open>
  \<^verbatim>\<open>handleParseError\<close>: the thrown value is an \<^verbatim>\<open>Error\<close> with a message, or
  something else (\<open>None\<close>).
\<close>

definition handleParseError :: "string option \<Rightarrow> AppComponent \<Rightarrow> AppComponent" where
  "handleParseError error st =
     (resetViewerState st)
       \<lparr> parseError := (case error of
            Some msg \<Rightarrow> ''Invalid JSON file: '' @ msg
          | None \<Rightarrow> ''Invalid JSON file: unknown error'') \<rparr>"

text \<open>
  A file is its name and what \<^verbatim>\<open>FileReader.readAsText\<close> gives: the text, or
  \<open>None\<close> when the read fails. \<^verbatim>\<open>loadFile\<close> clears the error, and the reader then
  calls one of its two handlers.
\<close>

record File =
  name :: string
  content :: "string option"

definition readerOnload :: "platform \<Rightarrow> string \<Rightarrow> string \<Rightarrow> AppComponent \<Rightarrow> AppComponent" where
  "readerOnload pf rawText fname st =
     (if trim rawText = [] then handleParseError (Some ''The selected file is empty.'') st
      else case jsonParse rawText of
        None \<Rightarrow> handleParseError (Some (syntaxErrorMessage pf rawText)) st
      | Some parsed \<Rightarrow> processJson pf parsed fname st)"

definition readerOnerror :: "AppComponent \<Rightarrow> AppComponent" where
  "readerOnerror st = handleParseError (Some ''Could not read the selected file.'') st"

definition loadFile :: "platform \<Rightarrow> File \<Rightarrow> AppComponent \<Rightarrow> AppComponent" where
  "loadFile pf file st =
     (let st0 = st\<lparr> parseError := [] \<rparr> in
      case content file of
        Some rawText \<Rightarrow> readerOnload pf rawText (name file) st0
      | None \<Rightarrow> readerOnerror st0)"

definition onFileSelected :: "platform \<Rightarrow> File option \<Rightarrow> AppComponent \<Rightarrow> AppComponent" where
  "onFileSelected pf selectedFile st =
     (case selectedFile of None \<Rightarrow> st | Some file \<Rightarrow> loadFile pf file st)"

section \<open>The filter rule and the expansion invariant, as the specification words them\<close>

text \<open>
  \<open>include(e)\<close>: the term is empty or occurs in \<open>e.searchable\<close>, and each of the three
  selections is empty or holds the event's value.
\<close>

definition spec_include :: "string \<Rightarrow> string list \<Rightarrow> string list \<Rightarrow> string list \<Rightarrow> EventView \<Rightarrow> bool" where
  "spec_include searchTerm levels apps contexts e =
     ((searchTerm = [] \<or> includesStr (searchable e) searchTerm) \<and>
      (levels = [] \<or> level e \<in> set levels) \<and>
      (apps = [] \<or> application e \<in> set apps) \<and>
      (contexts = [] \<or> context' e \<in> set contexts))"

text \<open>The expanded event, if there is one, is among the filtered events.\<close>

definition expansionValid :: "AppComponent \<Rightarrow> bool" where
  "expansionValid st =
     (case expandedEventUid st of
        None \<Rightarrow> True
      | Some u \<Rightarrow> u \<in> set (map uid (filteredEvents st)))"

section \<open>The event collection, as the specification words it\<close>

text \<open>
  An element is event-like when it is an object with one of the keys \<open>timestamp\<close>,
  \<open>topic\<close>, \<open>message\<close>, \<open>event\<close>, \<open>data\<close>; an array is accepted by the fallback
  when one of its first 20 elements is event-like.
\<close>

definition eventMarkerKeys :: "string list" where
  "eventMarkerKeys = [''timestamp'', ''topic'', ''message'', ''event'', ''data'']"

definition spec_eventLike :: "json \<Rightarrow> bool" where
  "spec_eventLike v =
     (case v of JObj obj \<Rightarrow> list_ex (\<lambda>k. k \<in> set (map fst obj)) eventMarkerKeys | _ \<Rightarrow> False)"

definition spec_sampledEventArray :: "json \<Rightarrow> bool" where
  "spec_sampledEventArray v =
     (case v of JArr xs \<Rightarrow> list_ex spec_eventLike (take 20 xs) | _ \<Rightarrow> False)"

definition arrayUnder :: "jsrecord \<Rightarrow> string \<Rightarrow> json list option" where
  "arrayUnder obj k = (case map_of obj k of Some (JArr xs) \<Rightarrow> Some xs | _ \<Rightarrow> None)"

definition nestedArrayUnder :: "jsrecord \<Rightarrow> string \<Rightarrow> string \<Rightarrow> json list option" where
  "nestedArrayUnder obj outer inner =
     (case map_of obj outer of Some (JObj nested) \<Rightarrow> arrayUnder nested inner | _ \<Rightarrow> None)"

fun firstSome :: "'a option list \<Rightarrow> 'a option" where
  "firstSome [] = None"
| "firstSome (Some x # rest) = Some x"
| "firstSome (None # rest) = firstSome rest"

text \<open>The five rules of the resolver, the first that applies deciding.\<close>

definition spec_extractEvents :: "json \<Rightarrow> json list" where
  "spec_extractEvents root =
     (case root of
        JArr xs \<Rightarrow> xs
      | JObj obj \<Rightarrow>
          (case firstSome (map (arrayUnder obj) [''events'', ''logs'', ''records'', ''entries'', ''items'']) of
             Some xs \<Rightarrow> xs
           | None \<Rightarrow>
               (case firstSome
                       [nestedArrayUnder obj ''data'' ''events'', nestedArrayUnder obj ''data'' ''logs'',
                        nestedArrayUnder obj ''payload'' ''events'', nestedArrayUnder obj ''payload'' ''logs''] of
                  Some xs \<Rightarrow> xs
                | None \<Rightarrow>
                    (case List.find spec_sampledEventArray (map snd obj) of
                       Some (JArr xs) \<Rightarrow> xs
                     | _ \<Rightarrow> [])))
      | _ \<Rightarrow> [])"

section \<open>Values that parsing produces\<close>









section \<open>Example inputs\<close>

text \<open>
  A platform whose collation is the order of the code units, and the documents the
  theorems below are run on.
\<close>

fun codeUnitCompare :: "string \<Rightarrow> string \<Rightarrow> int" where
  "codeUnitCompare [] [] = 0"
| "codeUnitCompare [] (b # bs) = - 1"
| "codeUnitCompare (a # as) [] = 1"
| "codeUnitCompare (a # as) (b # bs) =
     (if (of_char a :: nat) < of_char b then - 1
      else if (of_char b :: nat) < of_char a then 1
      else codeUnitCompare as bs)"

definition examplePlatform :: platform where
  "examplePlatform =
     \<lparr> localeCompare = codeUnitCompare, syntaxErrorMessage = (\<lambda>text. ''Unexpected token'') \<rparr>"

definition exampleDocument :: string where
  "exampleDocument =
     ''{\"events\":[{\"id\":\"1\",\"level\":\"ERR\",\"timestamp\":1700000000,\"message\":\"x\"}]}''"

definition exampleEvents :: json where
  "exampleEvents =
     JArr [JObj [(''level'', JStr ''ERR''), (''channel'', JStr ''voice'')],
           JObj [(''level'', JStr ''info''), (''channel'', JStr ''chat'')]]"

definition exampleLoaded :: AppComponent where
  "exampleLoaded = processJson examplePlatform exampleEvents ''f.json'' initialState"

section \<open>Facts about strings\<close>

lemma startsWith_iff: "startsWith s t \<longleftrightarrow> (\<exists>q. s = t @ q)"
  by (induction s t rule: startsWith.induct) auto

lemma includesStr_iff: "includesStr s t \<longleftrightarrow> (\<exists>p q. s = p @ t @ q)"
proof (induction s)
  case Nil
  then show ?case by simp
next
  case (Cons a s)
  show ?case
  proof
    assume "includesStr (a # s) t"
    then consider "startsWith (a # s) t" | "includesStr s t" by auto
    then show "\<exists>p q. a # s = p @ t @ q"
    proof cases
      case 1
      then obtain q where "a # s = t @ q" by (auto simp: startsWith_iff)
      then have "a # s = [] @ t @ q" by simp
      then show ?thesis by blast
    next
      case 2
      then obtain p q where "s = p @ t @ q" using Cons.IH by blast
      then have "a # s = (a # p) @ t @ q" by simp
      then show ?thesis by blast
    qed
  next
    assume "\<exists>p q. a # s = p @ t @ q"
    then obtain p q where pq: "a # s = p @ t @ q" by blast
    show "includesStr (a # s) t"
    proof (cases p)
      case Nil
      with pq have "startsWith (a # s) t" by (auto simp: startsWith_iff)
      then show ?thesis by simp
    next
      case (Cons b p')
      with pq have "s = p' @ t @ q" by simp
      then have "includesStr s t" using Cons.IH by blast
      then show ?thesis by simp
    qed
  qed
qed

section \<open>Evaluation rules\<close>

lemmas string_eval = toUpperCase_def toUpperChar_def toLowerCase_def toLowerChar_def lowerLetters_def upperLetters_def
  isWhiteSpace_def trim_def isDigit_def digitChar_def numberToString_def natToString_def
lemmas json_eval = getProp_def optProp_def asRecord_def isArray_def valueToInlineString_def orElse_def
lemmas level_eval = normalizeLevel_def matchesLevelToken_def isLevelTokenChar_def inferLevel_def Let_def


section \<open>Level inference\<close>

lemma normalizeLevel_spec:
  "normalizeLevel text = (case spec_normalizeLevel text of None \<Rightarrow> [] | Some l \<Rightarrow> l)"
  by (simp add: normalizeLevel_def spec_normalizeLevel_def matchesLevelToken_def Let_def)

lemma spec_normalizeLevel_nonempty: "spec_normalizeLevel text = Some l \<Longrightarrow> l \<noteq> []"
  by (auto simp: spec_normalizeLevel_def Let_def split: if_splits)

lemma inferLevelLoop_find:
  "inferLevelLoop cs =
     (case List.find (\<lambda>t. t \<noteq> [] \<and> spec_normalizeLevel t \<noteq> None) (map valueToInlineString cs) of
        None \<Rightarrow> ''UNKNOWN''
      | Some t \<Rightarrow> the (spec_normalizeLevel t))"
proof (induction cs)
  case Nil
  then show ?case by simp
next
  case (Cons c cs)
  show ?case
  proof (cases "spec_normalizeLevel (valueToInlineString c)")
    case None
    then show ?thesis using Cons.IH by (simp add: normalizeLevel_spec Let_def)
  next
    case (Some l)
    then have "l \<noteq> []" by (rule spec_normalizeLevel_nonempty)
    with Some show ?thesis using Cons.IH by (simp add: normalizeLevel_spec Let_def)
  qed
qed

text \<open>
  C4 (as amended). For every raw event the level is found by scanning
  \<open>metaData.level\<close>, \<open>event.level\<close>, \<open>event.severity\<close>, \<open>data.level\<close>,
  \<open>data.severity\<close>, \<open>data.notificationType\<close>, \<open>event.channel\<close> in order. The first
  candidate that coerces to a non-empty text and is not rejected decides: its upper-cased
  text containing CRITICAL or FATAL gives CRITICAL; containing ERROR or equal to ERR gives
  ERROR; containing WARN gives WARNING; containing DEBUG gives DEBUG; containing TRACE gives
  TRACE; containing INFO or equal to LOG gives INFO; otherwise an upper-cased text of 2 to
  20 characters from A-Z, 0-9, underscore and hyphen is itself the level (the custom token
  is the upper-cased text, not the text as written); otherwise the candidate is rejected
  and the scan goes on. With no deciding candidate the level is UNKNOWN.
\<close>

theorem inferLevel_scans_candidates:
  "inferLevel event data metaData = spec_inferLevel event data metaData"
  by (simp add: inferLevel_def spec_inferLevel_def spec_levelCandidates_def inferLevelLoop_find)

theorem inferLevel_scans_candidates_witness:
  "spec_inferLevel [(''id'', JStr ''1''), (''level'', JStr ''ERR''), (''timestamp'', JNum 1700000000), (''message'', JStr ''x'')] None None = ''ERROR''"
  by (simp add: inferLevel_scans_candidates [symmetric] string_eval json_eval level_eval)

text \<open>
  C4 as stated fails: the claim lets a custom token pass through unchanged, but the
  level of an event whose \<open>level\<close> is \<open>notice\<close> is \<open>NOTICE\<close>.
\<close>

theorem custom_level_token_is_uppercased:
  "inferLevel [(''level'', JStr ''notice'')] None None = ''NOTICE'' \<and>
   inferLevel [(''level'', JStr ''notice'')] None None \<noteq> ''notice''"
  by (simp add: string_eval json_eval level_eval)


section \<open>Filtering\<close>

lemma matchesFilters_spec:
  "matchesFilters st searchTerm e =
     spec_include searchTerm (selectedLevels st) (selectedApplications st) (selectedContexts st) e"
  by (simp add: matchesFilters_def spec_include_def Let_def)

lemma filteredEvents_applyFilters:
  "filteredEvents (applyFilters st) =
     filter (matchesFilters st (toLowerCase (trim (searchText st)))) (eventViews st)"
  by (simp add: applyFilters_def Let_def)

lemma applyFilters_frame:
  "eventViews (applyFilters st) = eventViews st"
  "searchText (applyFilters st) = searchText st"
  "selectedLevels (applyFilters st) = selectedLevels st"
  "selectedApplications (applyFilters st) = selectedApplications st"
  "selectedContexts (applyFilters st) = selectedContexts st"
  "levelOptions (applyFilters st) = levelOptions st"
  "applicationOptions (applyFilters st) = applicationOptions st"
  "contextOptions (applyFilters st) = contextOptions st"
  "metaEntries (applyFilters st) = metaEntries st"
  "prettyMetaBlocks (applyFilters st) = prettyMetaBlocks st"
  "fileName (applyFilters st) = fileName st"
  "parseError (applyFilters st) = parseError st"
  "applicationName (applyFilters st) = applicationName st"
  "totalEvents (applyFilters st) = totalEvents st"
  "isLoaded (applyFilters st) = isLoaded st"
  "expandedMetaKey (applyFilters st) = expandedMetaKey st"
  by (simp_all add: applyFilters_def Let_def)

lemma toLowerCase_Nil: "toLowerCase [] = []"
  by (simp add: toLowerCase_def)

lemma trim_Nil: "trim [] = []"
  by (simp add: trim_def)

lemma spec_include_no_filters: "spec_include [] [] [] [] e"
  by (simp add: spec_include_def)

lemma processJson_filter_state:
  "searchText (processJson pf parsed fname st) = []"
  "selectedLevels (processJson pf parsed fname st) = []"
  "selectedApplications (processJson pf parsed fname st) = []"
  "selectedContexts (processJson pf parsed fname st) = []"
  by (simp_all add: processJson_def Let_def applyFilters_frame resetViewerState_def)

text \<open>
  C2. For every state of the component, and so for every loaded document and every filter
  state, the filtered list is the normalized list filtered by \<open>include\<close> (the term
  being the search text trimmed and in lower case, and its being a substring is
  \<open>includesStr\<close>, see \<open>includesStr_iff\<close>): a subsequence in the original order,
  no longer than the normalized list, which filtering leaves as it is. With an empty
  search text and three empty selections the filtered list is the normalized list, as
  it is right after a document is loaded.
\<close>

theorem applyFilters_selects_included:
  "filteredEvents (applyFilters st) =
     filter (spec_include (toLowerCase (trim (searchText st))) (selectedLevels st)
               (selectedApplications st) (selectedContexts st)) (eventViews st)
   \<and> eventViews (applyFilters st) = eventViews st
   \<and> subseq (filteredEvents (applyFilters st)) (eventViews st)
   \<and> length (filteredEvents (applyFilters st)) \<le> length (eventViews st)
   \<and> filteredEvents (applyFilters (st\<lparr> searchText := [], selectedLevels := [],
          selectedApplications := [], selectedContexts := [] \<rparr>)) = eventViews st
   \<and> filteredEvents (processJson pf parsed fname st) = eventViews (processJson pf parsed fname st)"
proof -
  have sel: "filteredEvents (applyFilters s) =
      filter (spec_include (toLowerCase (trim (searchText s))) (selectedLevels s)
                (selectedApplications s) (selectedContexts s)) (eventViews s)" for s
    by (simp add: filteredEvents_applyFilters matchesFilters_spec [abs_def])
  have none: "searchText s = [] \<Longrightarrow> selectedLevels s = [] \<Longrightarrow> selectedApplications s = [] \<Longrightarrow>
      selectedContexts s = [] \<Longrightarrow> filteredEvents (applyFilters s) = eventViews s" for s
    by (simp add: sel toLowerCase_Nil trim_Nil spec_include_no_filters)
  have loaded: "filteredEvents (processJson pf parsed fname st) = eventViews (processJson pf parsed fname st)"
  proof -
    obtain s where s: "processJson pf parsed fname st = applyFilters s"
      and "searchText s = []" "selectedLevels s = []" "selectedApplications s = []" "selectedContexts s = []"
      by (simp add: processJson_def Let_def resetViewerState_def)
    then show ?thesis by (simp add: none applyFilters_frame)
  qed
  have cleared: "filteredEvents (applyFilters (st\<lparr> searchText := [], selectedLevels := [],
          selectedApplications := [], selectedContexts := [] \<rparr>)) = eventViews st"
    by (simp add: none)
  have sub: "subseq (filteredEvents (applyFilters st)) (eventViews st)"
    by (simp add: sel)
  have len: "length (filteredEvents (applyFilters st)) \<le> length (eventViews st)"
    by (simp add: sel)
  show ?thesis
    using sel [of st] sub len cleared loaded by (simp only: applyFilters_frame simp_thms)
qed


theorem applyFilters_selects_included_witness:
  "map uid (filteredEvents (applyFilters (exampleLoaded\<lparr> selectedLevels := [''ERROR''] \<rparr>))) = [''0-1'']"
proof -
  let ?st = "exampleLoaded\<lparr> selectedLevels := [''ERROR''] \<rparr>"
  have "map uid (filter (spec_include (toLowerCase (trim (searchText ?st))) (selectedLevels ?st)
               (selectedApplications ?st) (selectedContexts ?st)) (eventViews ?st)) = [''0-1'']"
    by code_simp
  with applyFilters_selects_included [of ?st] show ?thesis by simp
qed


text \<open>
  C9. From every state, and so from every filter state that search-text changes and
  selections can reach, \<open>clearFilters\<close> empties the search text and the three
  selections together and applies the filters once; the filtered list is then the whole
  normalized list, and the normalized events, the option catalogs, the metadata entries
  and blocks and the other fields of the document are unchanged.
\<close>

theorem clearFilters_resets_filters:
  "clearFilters st = applyFilters (st\<lparr> searchText := [], selectedLevels := [],
       selectedApplications := [], selectedContexts := [] \<rparr>)
   \<and> searchText (clearFilters st) = []
   \<and> selectedLevels (clearFilters st) = []
   \<and> selectedApplications (clearFilters st) = []
   \<and> selectedContexts (clearFilters st) = []
   \<and> filteredEvents (clearFilters st) = eventViews st
   \<and> eventViews (clearFilters st) = eventViews st
   \<and> levelOptions (clearFilters st) = levelOptions st
   \<and> applicationOptions (clearFilters st) = applicationOptions st
   \<and> contextOptions (clearFilters st) = contextOptions st
   \<and> metaEntries (clearFilters st) = metaEntries st
   \<and> prettyMetaBlocks (clearFilters st) = prettyMetaBlocks st
   \<and> applicationName (clearFilters st) = applicationName st
   \<and> totalEvents (clearFilters st) = totalEvents st
   \<and> fileName (clearFilters st) = fileName st
   \<and> isLoaded (clearFilters st) = isLoaded st"
proof -
  have "filteredEvents (clearFilters st) = eventViews st"
    by (simp add: clearFilters_def filteredEvents_applyFilters matchesFilters_def toLowerCase_Nil trim_Nil)
  then show ?thesis
    by (simp add: clearFilters_def applyFilters_frame)
qed


theorem clearFilters_resets_filters_witness:
  "map uid (filteredEvents (clearFilters (applyFilters (exampleLoaded\<lparr> selectedLevels := [''ERROR''] \<rparr>))))
     = [''0-1'', ''1-2'']
   \<and> selectedLevels (clearFilters (applyFilters (exampleLoaded\<lparr> selectedLevels := [''ERROR''] \<rparr>))) = []"
proof -
  let ?st = "applyFilters (exampleLoaded\<lparr> selectedLevels := [''ERROR''] \<rparr>)"
  have "map uid (eventViews ?st) = [''0-1'', ''1-2'']"
    by code_simp
  moreover from clearFilters_resets_filters [of ?st]
  have "filteredEvents (clearFilters ?st) = eventViews ?st" and "selectedLevels (clearFilters ?st) = []"
    by blast+
  ultimately show ?thesis by simp
qed


section \<open>The expanded event\<close>

lemma expansionValid_applyFilters: "expansionValid (applyFilters st)"
  by (auto simp: expansionValid_def applyFilters_def Let_def list_ex_iff split: option.splits)

lemma expansionValid_reset: "expansionValid (resetViewerState st)"
  by (simp add: expansionValid_def resetViewerState_def)

lemma expansionValid_handleParseError: "expansionValid (handleParseError err st)"
  by (simp add: expansionValid_def handleParseError_def resetViewerState_def)

lemma expansionValid_processJson: "expansionValid (processJson pf parsed fname st)"
  by (simp add: processJson_def Let_def expansionValid_applyFilters)

lemma expansionValid_readerOnload: "expansionValid (readerOnload pf rawText fname st)"
  by (simp add: readerOnload_def expansionValid_handleParseError expansionValid_processJson
      split: option.splits)

lemma expansionValid_loadFile: "expansionValid (loadFile pf file st)"
  by (simp add: loadFile_def Let_def readerOnerror_def expansionValid_handleParseError
      expansionValid_readerOnload split: option.splits)

lemma expansionValid_toggleEventJson:
  "u \<in> set (map uid (filteredEvents st)) \<Longrightarrow> expansionValid (toggleEventJson u st)"
  by (simp add: expansionValid_def toggleEventJson_def)

text \<open>
  C10. After every operation that recomputes the filtered list (applying the filters,
  a filter change, a toggled option, clearing the filters, loading a document) and after
  every reset (also through a parse or read error), the expanded event is \<open>None\<close>
  or the uid of an event of the filtered list. Expanding an event of the filtered list
  keeps it so.
\<close>

theorem expanded_event_is_visible:
  "expansionValid (applyFilters st)
   \<and> expansionValid (onFilterChange st)
   \<and> expansionValid (clearFilters st)
   \<and> expansionValid (toggleFilterOption ft option checked st)
   \<and> expansionValid (processJson pf parsed fname st)
   \<and> expansionValid (readerOnload pf rawText fname st)
   \<and> expansionValid (loadFile pf file st)
   \<and> expansionValid (resetViewerState st)
   \<and> expansionValid (handleParseError err st)
   \<and> expansionValid (readerOnerror st)
   \<and> (u \<in> set (map uid (filteredEvents st)) \<longrightarrow> expansionValid (toggleEventJson u st))"
proof -
  have "u \<in> set (map uid (filteredEvents st)) \<longrightarrow> expansionValid (toggleEventJson u st)"
    by (rule impI) (rule expansionValid_toggleEventJson)
  then show ?thesis
    by (simp only: onFilterChange_def clearFilters_def toggleFilterOption_def readerOnerror_def
        expansionValid_applyFilters expansionValid_processJson expansionValid_readerOnload
        expansionValid_loadFile expansionValid_reset expansionValid_handleParseError simp_thms)
qed


theorem expanded_event_is_visible_witness:
  "expandedEventUid (toggleEventJson ''1-2'' exampleLoaded) = Some ''1-2''
   \<and> expansionValid (toggleEventJson ''1-2'' exampleLoaded)
   \<and> expandedEventUid (toggleFilterOption LevelFilter ''ERROR'' True (toggleEventJson ''1-2'' exampleLoaded)) = None
   \<and> expansionValid (toggleFilterOption LevelFilter ''ERROR'' True (toggleEventJson ''1-2'' exampleLoaded))"
proof -
  have visible: "''1-2'' \<in> set (map uid (filteredEvents exampleLoaded))"
    by code_simp
  have hidden: "expandedEventUid (toggleFilterOption LevelFilter ''ERROR'' True (toggleEventJson ''1-2'' exampleLoaded)) = None"
    by code_simp
  have "expandedEventUid (toggleEventJson ''1-2'' exampleLoaded) = Some ''1-2''"
    by code_simp
  moreover from expanded_event_is_visible [of exampleLoaded _ _ _ _ _ _ _ _ _ "''1-2''"] visible
  have "expansionValid (toggleEventJson ''1-2'' exampleLoaded)" by blast
  moreover from expanded_event_is_visible [of "toggleEventJson ''1-2'' exampleLoaded" LevelFilter "''ERROR''" True]
  have "expansionValid (toggleFilterOption LevelFilter ''ERROR'' True (toggleEventJson ''1-2'' exampleLoaded))"
    by blast
  ultimately show ?thesis using hidden by simp
qed


section \<open>Unique handles\<close>

lemma digitValue_digitChar: "d < 10 \<Longrightarrow> digitValue (digitChar d) = int d"
proof -
  assume "d < 10"
  then have "d \<in> {0, 1, 2, 3, 4, 5, 6, 7, 8, 9}" by auto
  then show ?thesis by (auto simp: digitValue_def digitChar_def)
qed

lemma isDigit_digitChar: "d < 10 \<Longrightarrow> isDigit (digitChar d)"
proof -
  assume "d < 10"
  then have "d \<in> {0, 1, 2, 3, 4, 5, 6, 7, 8, 9}" by auto
  then show ?thesis by (auto simp: isDigit_def digitChar_def)
qed

lemma digitsToInt_snoc: "digitsToInt (ds @ [c]) = 10 * digitsToInt ds + digitValue c"
  by (simp add: digitsToInt_def)

lemma intDigits_all_digits: "0 \<le> n \<Longrightarrow> list_all isDigit (intDigits n)"
proof (induction n rule: intDigits.induct)
  case (1 n)
  show ?case
  proof (cases "n < 10")
    case True
    with "1.prems" show ?thesis by (simp add: intDigits.simps [of n] isDigit_digitChar)
  next
    case False
    then have "list_all isDigit (intDigits (n div 10))" using "1.IH" "1.prems" by simp
    moreover have "isDigit (digitChar (nat (n mod 10)))" by (rule isDigit_digitChar) simp
    ultimately show ?thesis using False by (simp add: intDigits.simps [of n])
  qed
qed

lemma digitsToInt_intDigits: "0 \<le> n \<Longrightarrow> digitsToInt (intDigits n) = n"
proof (induction n rule: intDigits.induct)
  case (1 n)
  show ?case
  proof (cases "n < 10")
    case True
    with "1.prems" show ?thesis
      by (simp add: intDigits.simps [of n] digitsToInt_def digitValue_digitChar)
  next
    case False
    then have "digitsToInt (intDigits (n div 10)) = n div 10" using "1.IH" "1.prems" by simp
    moreover have "digitValue (digitChar (nat (n mod 10))) = n mod 10"
      by (simp add: digitValue_digitChar)
    ultimately show ?thesis using False
      by (simp add: intDigits.simps [of n] digitsToInt_snoc)
  qed
qed

lemma intDigits_nonempty: "intDigits n \<noteq> []"
  by (simp add: intDigits.simps [of n])

lemma natToString_inj: "natToString m = natToString n \<Longrightarrow> m = n"
proof -
  assume "natToString m = natToString n"
  then have "digitsToInt (intDigits (int m)) = digitsToInt (intDigits (int n))"
    by (simp add: natToString_def)
  then show "m = n" by (simp add: digitsToInt_intDigits)
qed

lemma natToString_no_dash: "CHR ''-'' \<notin> set (natToString n)"
proof
  assume "CHR ''-'' \<in> set (natToString n)"
  moreover have "list_all isDigit (natToString n)"
    by (simp add: natToString_def intDigits_all_digits)
  ultimately have "isDigit (CHR ''-'')" by (simp add: list_all_iff)
  then show False by (simp add: isDigit_def)
qed

lemma takeWhile_separator: "c \<notin> set xs \<Longrightarrow> takeWhile (\<lambda>x. x \<noteq> c) (xs @ c # r) = xs"
  by (induction xs) auto

lemma append_separator_eq:
  assumes "xs @ c # r = ys @ c # r'" and "c \<notin> set xs" and "c \<notin> set ys"
  shows "xs = ys"
proof -
  have "takeWhile (\<lambda>x. x \<noteq> c) (xs @ c # r) = xs" using assms(2) by (rule takeWhile_separator)
  moreover have "takeWhile (\<lambda>x. x \<noteq> c) (ys @ c # r') = ys" using assms(3) by (rule takeWhile_separator)
  ultimately show ?thesis using assms(1) by simp
qed

lemma uid_toEventView: "uid (toEventView e i) = natToString i @ CHR ''-'' # id' (toEventView e i)"
  by (simp add: toEventView_def Let_def)

lemma uid_index_inj: "uid (toEventView e i) = uid (toEventView e' j) \<Longrightarrow> i = j"
proof -
  assume "uid (toEventView e i) = uid (toEventView e' j)"
  then have "natToString i @ CHR ''-'' # id' (toEventView e i) = natToString j @ CHR ''-'' # id' (toEventView e' j)"
    by (simp only: uid_toEventView)
  then have "natToString i = natToString j"
    by (rule append_separator_eq) (rule natToString_no_dash)+
  then show "i = j" by (rule natToString_inj)
qed

lemma distinct_mapIndexed:
  assumes "\<And>x y i j. f x i = f y j \<Longrightarrow> i = j"
  shows "distinct (mapIndexed f xs)"
proof -
  have "inj_on (\<lambda>ix. f (snd ix) (fst ix)) (set (enumerate 0 xs))"
  proof (rule inj_onI)
    fix p q
    assume p: "p \<in> set (enumerate 0 xs)" and q: "q \<in> set (enumerate 0 xs)"
      and eq: "f (snd p) (fst p) = f (snd q) (fst q)"
    from eq have "fst p = fst q" by (rule assms)
    moreover from p q have "snd p = xs ! fst p" "snd q = xs ! fst q"
      by (simp_all add: in_set_enumerate_eq)
    ultimately show "p = q" by (simp add: prod_eq_iff)
  qed
  then show ?thesis by (simp add: mapIndexed_def distinct_map)
qed

lemma eventViews_processJson:
  "eventViews (processJson pf parsed fname st) =
     mapIndexed toEventView (extractEvents parsed (asRecord (Some parsed)))"
  by (simp add: processJson_def Let_def applyFilters_def)

text \<open>
  C3. For every raw event list, whatever the ids of its events, and so for every loaded
  document, the uids of the normalized events are pairwise distinct: a uid is the
  decimal position, a hyphen and the id, and the position can be read back from it.
\<close>

theorem uid_pairwise_distinct:
  "distinct (map uid (mapIndexed toEventView events))
   \<and> distinct (map uid (eventViews (processJson pf parsed fname st)))"
proof -
  have "distinct (mapIndexed (\<lambda>e i. uid (toEventView e i)) xs)" for xs
    by (rule distinct_mapIndexed) (rule uid_index_inj)
  then have "distinct (map uid (mapIndexed toEventView xs))" for xs
    by (simp add: mapIndexed_def comp_def)
  then show ?thesis by (simp add: eventViews_processJson)
qed


theorem uid_pairwise_distinct_witness:
  "map uid (mapIndexed toEventView [JObj [(''id'', JStr ''7'')], JObj [(''id'', JNum 7)], JObj [(''id'', JStr [])]])
     = [''0-7'', ''1-7'', ''2-3'']
   \<and> distinct (map uid (mapIndexed toEventView
         [JObj [(''id'', JStr ''7'')], JObj [(''id'', JNum 7)], JObj [(''id'', JStr [])]]))"
proof -
  have "map uid (mapIndexed toEventView [JObj [(''id'', JStr ''7'')], JObj [(''id'', JNum 7)], JObj [(''id'', JStr [])]])
    = [''0-7'', ''1-7'', ''2-3'']"
    by code_simp
  moreover from uid_pairwise_distinct [of "[JObj [(''id'', JStr ''7'')], JObj [(''id'', JNum 7)], JObj [(''id'', JStr [])]]"]
  have "distinct (map uid (mapIndexed toEventView
         [JObj [(''id'', JStr ''7'')], JObj [(''id'', JNum 7)], JObj [(''id'', JStr [])]]))"
    by blast
  ultimately show ?thesis by blast
qed

section \<open>The event collection\<close>

lemma getProp_defined: "getProp obj k \<noteq> None \<longleftrightarrow> k \<in> set (map fst obj)"
  by (simp add: getProp_def map_of_eq_None_iff)

lemma entry_check_eventLike:
  "spec_eventLike (JObj entry) =
     (getProp entry ''timestamp'' \<noteq> None \<or> getProp entry ''topic'' \<noteq> None \<or>
      getProp entry ''message'' \<noteq> None \<or> getProp entry ''event'' \<noteq> None \<or>
      getProp entry ''data'' \<noteq> None)"
  apply (simp only: getProp_defined)
  apply (simp add: spec_eventLike_def eventMarkerKeys_def)
  done

lemma looksLikeLoop_counts:
  "i \<le> n \<Longrightarrow> n \<le> length vals \<Longrightarrow>
   looksLikeLoop vals n i m = m + length (filter spec_eventLike (drop i (take n vals)))"
proof (induction vals n i m rule: looksLikeLoop.induct)
  case (1 vals sampleSize i m)
  show ?case
  proof (cases "i < sampleSize")
    case False
    with "1.prems" show ?thesis by (subst looksLikeLoop.simps) simp
  next
    case True
    with "1.prems" have step: "drop i (take sampleSize vals) = vals ! i # drop (i + 1) (take sampleSize vals)"
      by (simp add: Cons_nth_drop_Suc [symmetric])
    show ?thesis
    proof (cases "asRecord (Some (vals ! i))")
      case None
      then have "\<not> spec_eventLike (vals ! i)"
        by (auto simp: asRecord_def spec_eventLike_def split: json.splits)
      moreover from None True "1.IH"(1) "1.prems"
      have "looksLikeLoop vals sampleSize (i + 1) m =
          m + length (filter spec_eventLike (drop (i + 1) (take sampleSize vals)))" by simp
      ultimately show ?thesis using None True step
        by (subst looksLikeLoop.simps) simp
    next
      case (Some entry)
      then have v: "vals ! i = JObj entry" by (auto simp: asRecord_def split: json.splits)
      show ?thesis
      proof (cases "spec_eventLike (JObj entry)")
        case yes: True
        then have c: "getProp entry ''timestamp'' \<noteq> None \<or> getProp entry ''topic'' \<noteq> None \<or>
            getProp entry ''message'' \<noteq> None \<or> getProp entry ''event'' \<noteq> None \<or>
            getProp entry ''data'' \<noteq> None" by (simp add: entry_check_eventLike)
        with Some True "1.IH"(2) "1.prems"
        have "looksLikeLoop vals sampleSize (i + 1) (m + 1) =
            m + 1 + length (filter spec_eventLike (drop (i + 1) (take sampleSize vals)))" by simp
        then show ?thesis using Some True step c yes v
          by (subst looksLikeLoop.simps) simp
      next
        case no: False
        then have c: "\<not> (getProp entry ''timestamp'' \<noteq> None \<or> getProp entry ''topic'' \<noteq> None \<or>
            getProp entry ''message'' \<noteq> None \<or> getProp entry ''event'' \<noteq> None \<or>
            getProp entry ''data'' \<noteq> None)" by (simp add: entry_check_eventLike)
        with Some True "1.IH"(3) "1.prems"
        have "looksLikeLoop vals sampleSize (i + 1) m =
            m + length (filter spec_eventLike (drop (i + 1) (take sampleSize vals)))" by simp
        then show ?thesis using Some True step c no v
          by (subst looksLikeLoop.simps) simp
      qed
    qed
  qed
qed

lemma looksLikeEventArray_spec: "looksLikeEventArray xs = spec_sampledEventArray (JArr xs)"
proof -
  have "take (min (length xs) 20) xs = take 20 xs"
    by (simp add: min_def)
  then have "looksLikeLoop xs (min (length xs) 20) 0 0 = length (filter spec_eventLike (take 20 xs))"
    by (simp add: looksLikeLoop_counts)
  moreover have "1 \<le> length (filter spec_eventLike ys) \<longleftrightarrow> list_ex spec_eventLike ys" for ys
    by (induction ys) auto
  ultimately show ?thesis by (simp add: looksLikeEventArray_def spec_sampledEventArray_def)
qed

lemma firstArray_firstSome:
  "firstArray cs = firstSome (map (\<lambda>c. case c of Some (JArr xs) \<Rightarrow> Some xs | _ \<Rightarrow> None) cs)"
proof (induction cs)
  case Nil
  then show ?case by simp
next
  case (Cons c cs)
  then show ?case by (simp split: option.splits json.splits)
qed

lemma firstSome_append:
  "firstSome (xs @ ys) = (case firstSome xs of Some x \<Rightarrow> Some x | None \<Rightarrow> firstSome ys)"
  by (induction xs rule: firstSome.induct) simp_all

lemma firstEventArray_find:
  "firstEventArray vs = (case List.find spec_sampledEventArray vs of Some (JArr xs) \<Rightarrow> xs | _ \<Rightarrow> [])"
proof (induction vs)
  case Nil
  then show ?case by simp
next
  case (Cons v vs)
  show ?case
  proof (cases v)
    case (JArr xs)
    then show ?thesis using Cons.IH by (simp add: looksLikeEventArray_spec)
  qed (use Cons.IH in \<open>simp_all add: spec_sampledEventArray_def\<close>)
qed

lemma direct_candidate:
  "(case optProp (Some obj) k of Some (JArr xs) \<Rightarrow> Some xs | _ \<Rightarrow> None) = arrayUnder obj k"
  by (simp add: optProp_def getProp_def arrayUnder_def)

lemma nested_candidate:
  "(case optProp (asRecord (optProp (Some obj) outer)) inner of Some (JArr xs) \<Rightarrow> Some xs | _ \<Rightarrow> None)
     = nestedArrayUnder obj outer inner"
  by (simp add: optProp_def getProp_def asRecord_def nestedArrayUnder_def arrayUnder_def
      split: option.splits json.splits)

lemma extractEvents_cascade:
  "extractEvents parsed (asRecord (Some parsed)) = spec_extractEvents parsed"
proof (cases parsed)
  case (JObj obj)
  have five: "firstSome [a1, a2, a3, a4, a5, b1, b2, b3, b4] =
      (case firstSome [a1, a2, a3, a4, a5] of Some x \<Rightarrow> Some x | None \<Rightarrow> firstSome [b1, b2, b3, b4])"
    for a1 a2 a3 a4 a5 b1 b2 b3 b4 :: "json list option"
    using firstSome_append [of "[a1, a2, a3, a4, a5]" "[b1, b2, b3, b4]"] by simp
  have rec: "asRecord (Some (JObj obj)) = Some obj" by (simp add: asRecord_def)
  show ?thesis
    apply (simp only: JObj extractEvents_def spec_extractEvents_def Let_def firstArray_firstSome rec
        json.case list.map direct_candidate nested_candidate five option.case firstEventArray_find)
    apply (simp split: option.splits)
    done
qed (simp_all add: extractEvents_def spec_extractEvents_def asRecord_def optProp_def)


text \<open>
  C5. For every parsed root value the event collection is resolved, the first match
  winning, as (1) the root itself when it is an array; (2) the first array among the
  root object's \<open>events\<close>, \<open>logs\<close>, \<open>records\<close>, \<open>entries\<close>, \<open>items\<close>;
  (3) the array under \<open>events\<close>, then \<open>logs\<close>, of the object under \<open>data\<close>, then
  of the one under \<open>payload\<close>; (4) the first of the root object's values, in enumeration
  order, that is an array with an event-like element among its first 20; (5) the empty
  list.
\<close>

theorem extractEvents_first_match:
  "extractEvents parsed (asRecord (Some parsed)) = spec_extractEvents parsed"
  by (rule extractEvents_cascade)

theorem extractEvents_first_match_witness:
  "spec_extractEvents (JObj [(''data'', JObj [(''events'', JArr [JObj [(''topic'', JStr ''t'')]])])])
     = [JObj [(''topic'', JStr ''t'')]]
   \<and> spec_extractEvents (JObj [(''count'', JNum 2), (''rows'', JArr [JNum 1, JObj [(''message'', JNull)]])])
     = [JNum 1, JObj [(''message'', JNull)]]"
proof -
  have "extractEvents (JObj [(''data'', JObj [(''events'', JArr [JObj [(''topic'', JStr ''t'')]])])])
      (asRecord (Some (JObj [(''data'', JObj [(''events'', JArr [JObj [(''topic'', JStr ''t'')]])])])))
     = [JObj [(''topic'', JStr ''t'')]]"
    by code_simp
  moreover have "extractEvents (JObj [(''count'', JNum 2), (''rows'', JArr [JNum 1, JObj [(''message'', JNull)]])])
      (asRecord (Some (JObj [(''count'', JNum 2), (''rows'', JArr [JNum 1, JObj [(''message'', JNull)]])])))
     = [JNum 1, JObj [(''message'', JNull)]]"
    by code_simp
  ultimately show ?thesis by (simp only: extractEvents_first_match simp_thms)
qed

section \<open>Metadata entries\<close>

lemma mset_insertSorted: "mset (insertSorted cmp x ys) = add_mset x (mset ys)"
  by (induction ys) auto

lemma mset_sortWith: "mset (sortWith cmp xs) = mset xs"
  by (induction xs) (auto simp: sortWith_def mset_insertSorted)

lemma set_insertSorted: "set (insertSorted cmp x ys) = insert x (set ys)"
  by (induction ys) auto

lemma sorted_insertSorted:
  assumes total: "\<And>a b. cmp a b \<le> 0 \<or> cmp b a \<le> 0"
    and trans: "\<And>a b c. cmp a b \<le> 0 \<Longrightarrow> cmp b c \<le> 0 \<Longrightarrow> cmp a c \<le> 0"
    and sorted: "sorted_wrt (\<lambda>a b. cmp a b \<le> (0::int)) ys"
  shows "sorted_wrt (\<lambda>a b. cmp a b \<le> 0) (insertSorted cmp x ys)"
  using sorted
proof (induction ys)
  case Nil
  then show ?case by simp
next
  case (Cons y ys)
  show ?case
  proof (cases "cmp x y \<le> 0")
    case True
    then have "cmp x z \<le> 0" if "z \<in> set ys" for z
      using Cons.prems that trans [of x y z] by auto
    with True Cons.prems show ?thesis by auto
  next
    case False
    then have "cmp y x \<le> 0" using total [of x y] by simp
    with False Cons show ?thesis by (auto simp: set_insertSorted)
  qed
qed

lemma sorted_sortWith:
  assumes "\<And>a b. cmp a b \<le> 0 \<or> cmp b a \<le> 0"
    and "\<And>a b c. cmp a b \<le> 0 \<Longrightarrow> cmp b c \<le> 0 \<Longrightarrow> cmp a c \<le> 0"
  shows "sorted_wrt (\<lambda>a b. cmp a b \<le> (0::int)) (sortWith cmp xs)"
proof (induction xs)
  case Nil
  then show ?case by (simp add: sortWith_def)
next
  case (Cons x xs)
  have "sortWith cmp (x # xs) = insertSorted cmp x (sortWith cmp xs)" by (simp add: sortWith_def)
  with Cons show ?case using sorted_insertSorted [of cmp "sortWith cmp xs" x, OF assms] by simp
qed

lemma key_buildBrowserBlock: "PrettyMetadataBlock.key (buildBrowserBlock b) = ''browser''"
  by (simp add: buildBrowserBlock_def Let_def)

lemma key_buildAgentBlock: "PrettyMetadataBlock.key (buildAgentBlock a) = ''agent''"
  by (simp add: buildAgentBlock_def Let_def)

lemma key_buildSettingsBlock: "PrettyMetadataBlock.key (buildSettingsBlock s) = ''settings''"
  by (simp add: buildSettingsBlock_def Let_def)

lemma key_buildTemplatesBlock: "PrettyMetadataBlock.key (buildTemplatesBlock ts) = ''templates''"
  by (simp add: buildTemplatesBlock_def Let_def)

lemma key_buildWidgetsBlock: "buildWidgetsBlock meta ts = Some w \<Longrightarrow> PrettyMetadataBlock.key w = ''widgets''"
  by (auto simp add: buildWidgetsBlock_def Let_def split: if_splits)

lemma blockKeys_reserved:
  "set (map PrettyMetadataBlock.key (buildPrettyMetaBlocks mv)) \<subseteq> set prettyMetaKeys"
proof (cases mv)
  case None
  then show ?thesis by (simp add: buildPrettyMetaBlocks_def)
next
  case (Some meta)
  show ?thesis
    unfolding Some buildPrettyMetaBlocks_def Let_def option.case
    by (auto simp: prettyMetaKeys_def key_buildBrowserBlock key_buildAgentBlock key_buildSettingsBlock
        key_buildTemplatesBlock key_buildWidgetsBlock split: option.splits)
qed

lemma codeUnitCompare_total: "codeUnitCompare a b \<le> 0 \<or> codeUnitCompare b a \<le> 0"
  by (induction a b rule: codeUnitCompare.induct) auto

lemma codeUnitCompare_trans:
  "codeUnitCompare a b \<le> 0 \<Longrightarrow> codeUnitCompare b c \<le> 0 \<Longrightarrow> codeUnitCompare a c \<le> 0"
proof (induction a arbitrary: b c)
  case Nil
  then show ?case by (cases c) auto
next
  case (Cons x xs)
  then obtain y ys where b: "b = y # ys" by (cases b) auto
  with Cons.prems obtain z zs where c: "c = z # zs" by (cases c) auto
  from Cons.prems Cons.IH [of ys zs] show ?case
    unfolding b c by (auto split: if_splits)
qed

text \<open>
  C6 (as amended). For every metadata root, the generic entries are exactly the members
  whose key is not one of the five reserved names \<open>browser\<close>, \<open>agent\<close>, \<open>settings\<close>,
  \<open>templates\<close>, \<open>widgets\<close>, each with its raw value and the summary of it, and they
  are sorted by key in the order of \<^verbatim>\<open>localeCompare\<close> (a total and transitive
  comparison). A member with a reserved key is never a generic entry, whether or not a
  pretty block is produced for it; the keys of the pretty blocks are among the reserved
  names.
\<close>

theorem metaEntries_are_unreserved_keys:
  assumes total: "\<And>a b. localeCompare pf a b \<le> 0 \<or> localeCompare pf b a \<le> 0"
    and trans: "\<And>a b c. localeCompare pf a b \<le> 0 \<Longrightarrow> localeCompare pf b c \<le> 0 \<Longrightarrow> localeCompare pf a c \<le> 0"
  shows "mset (map (\<lambda>e. (MetaEntry.key e, rawValue e)) (extractMetaEntries pf (Some meta)))
           = mset (filter (\<lambda>kv. fst kv \<notin> set prettyMetaKeys) meta)
       \<and> sorted_wrt (\<lambda>a b. localeCompare pf a b \<le> 0) (map MetaEntry.key (extractMetaEntries pf (Some meta)))
       \<and> list_all (\<lambda>e. MetaEntry.value' e = summarizeMetaValue (rawValue e) \<and> rawJsonCache e = None)
            (extractMetaEntries pf (Some meta))
       \<and> set (map MetaEntry.key (extractMetaEntries pf (Some meta))) \<inter> set prettyMetaKeys = {}
       \<and> set (map PrettyMetadataBlock.key (buildPrettyMetaBlocks (Some meta))) \<subseteq> set prettyMetaKeys
       \<and> extractMetaEntries pf None = []"
proof -
  let ?cmp = "\<lambda>l r :: string \<times> json. localeCompare pf (fst l) (fst r)"
  let ?kept = "filter (\<lambda>kv. fst kv \<notin> set prettyMetaKeys) meta"
  let ?entries = "extractMetaEntries pf (Some meta)"
  have pairs: "map (\<lambda>e. (MetaEntry.key e, rawValue e)) ?entries = sortWith ?cmp ?kept"
    by (simp add: extractMetaEntries_def comp_def)
  have keys: "map MetaEntry.key ?entries = map fst (sortWith ?cmp ?kept)"
    by (simp add: extractMetaEntries_def comp_def)
  have m: "mset (map (\<lambda>e. (MetaEntry.key e, rawValue e)) ?entries) = mset ?kept"
    by (simp only: pairs mset_sortWith)
  have "sorted_wrt (\<lambda>l r. ?cmp l r \<le> 0) (sortWith ?cmp ?kept)"
    by (rule sorted_sortWith) (use total trans in blast)+
  then have s: "sorted_wrt (\<lambda>a b. localeCompare pf a b \<le> 0) (map MetaEntry.key ?entries)"
    by (simp only: keys sorted_wrt_map)
  have v: "list_all (\<lambda>e. MetaEntry.value' e = summarizeMetaValue (rawValue e) \<and> rawJsonCache e = None) ?entries"
    by (simp add: extractMetaEntries_def list_all_iff)
  have "set (sortWith ?cmp ?kept) = set ?kept"
    using mset_sortWith [of ?cmp ?kept] by (metis set_mset_mset)
  then have d: "set (map MetaEntry.key ?entries) \<inter> set prettyMetaKeys = {}"
    by (auto simp only: keys set_map set_filter)
  have n: "extractMetaEntries pf None = []" by (simp add: extractMetaEntries_def)
  from m s v d n blockKeys_reserved [of "Some meta"] show ?thesis by blast
qed

theorem metaEntries_are_unreserved_keys_witness:
  "map MetaEntry.key (extractMetaEntries examplePlatform
       (Some [(''zeta'', JNum 1), (''browser'', JObj [(''name'', JStr ''Chrome'')]), (''alpha'', JStr ''a'')]))
     = [''alpha'', ''zeta'']
   \<and> sorted_wrt (\<lambda>a b. localeCompare examplePlatform a b \<le> 0)
       (map MetaEntry.key (extractMetaEntries examplePlatform
          (Some [(''zeta'', JNum 1), (''browser'', JObj [(''name'', JStr ''Chrome'')]), (''alpha'', JStr ''a'')])))"
proof -
  have total: "localeCompare examplePlatform a b \<le> 0 \<or> localeCompare examplePlatform b a \<le> 0" for a b
    by (simp add: examplePlatform_def codeUnitCompare_total)
  have trans: "localeCompare examplePlatform a b \<le> 0 \<Longrightarrow> localeCompare examplePlatform b c \<le> 0
      \<Longrightarrow> localeCompare examplePlatform a c \<le> 0" for a b c
    using codeUnitCompare_trans [of a b c] by (simp add: examplePlatform_def)
  have "map MetaEntry.key (extractMetaEntries examplePlatform
       (Some [(''zeta'', JNum 1), (''browser'', JObj [(''name'', JStr ''Chrome'')]), (''alpha'', JStr ''a'')]))
     = [''alpha'', ''zeta'']"
    by code_simp
  moreover from metaEntries_are_unreserved_keys [of examplePlatform
      "[(''zeta'', JNum 1), (''browser'', JObj [(''name'', JStr ''Chrome'')]), (''alpha'', JStr ''a'')]",
      OF total trans, THEN conjunct2, THEN conjunct1]
  have "sorted_wrt (\<lambda>a b. localeCompare examplePlatform a b \<le> 0)
       (map MetaEntry.key (extractMetaEntries examplePlatform
          (Some [(''zeta'', JNum 1), (''browser'', JObj [(''name'', JStr ''Chrome'')]), (''alpha'', JStr ''a'')])))" .
  ultimately show ?thesis by (rule conjI)
qed

text \<open>
  C6 as stated fails: a \<open>browser\<close> member that is not an object and an empty
  \<open>templates\<close> array produce no pretty block, and yet neither is a generic entry.
\<close>

theorem reserved_key_without_block_is_dropped:
  "buildPrettyMetaBlocks (Some [(''browser'', JStr ''Chrome''), (''templates'', JArr []), (''zeta'', JNum 1)]) = []
   \<and> map MetaEntry.key (extractMetaEntries examplePlatform
         (Some [(''browser'', JStr ''Chrome''), (''templates'', JArr []), (''zeta'', JNum 1)])) = [''zeta'']"
  by code_simp

section \<open>Load failures\<close>

lemma handleParseError_initial:
  "handleParseError err st =
     initialState\<lparr> parseError := (case err of Some msg \<Rightarrow> ''Invalid JSON file: '' @ msg
                                       | None \<Rightarrow> ''Invalid JSON file: unknown error'') \<rparr>"
  by (simp add: handleParseError_def resetViewerState_def initialState_def)

text \<open>
  C7. For every text that is blank or that fails to parse, whatever the state before,
  loading it leaves the initial state of the component with an error message in
  \<open>parseError\<close>: the file name, the application name, the event lists, the option
  catalogs, the metadata entries and blocks, the filter state, the expansion state and
  the loaded flag all have their defaults, and the message is not empty.
\<close>

theorem parse_failure_resets_view_model:
  assumes "trim rawText = [] \<or> jsonParse rawText = None"
  shows "readerOnload pf rawText fname st =
           initialState\<lparr> parseError := ''Invalid JSON file: '' @
             (if trim rawText = [] then ''The selected file is empty.'' else syntaxErrorMessage pf rawText) \<rparr>
       \<and> loadFile pf \<lparr> name = fname, content = Some rawText \<rparr> st =
           initialState\<lparr> parseError := ''Invalid JSON file: '' @
             (if trim rawText = [] then ''The selected file is empty.'' else syntaxErrorMessage pf rawText) \<rparr>
       \<and> parseError (loadFile pf \<lparr> name = fname, content = Some rawText \<rparr> st) \<noteq> []"
proof -
  have onload: "readerOnload pf rawText fname s =
           initialState\<lparr> parseError := ''Invalid JSON file: '' @
             (if trim rawText = [] then ''The selected file is empty.'' else syntaxErrorMessage pf rawText) \<rparr>" for s
    using assms by (auto simp: readerOnload_def handleParseError_initial)
  have load: "loadFile pf \<lparr> name = fname, content = Some rawText \<rparr> st = readerOnload pf rawText fname (st\<lparr> parseError := [] \<rparr>)"
    by (simp add: loadFile_def Let_def)
  show ?thesis
    by (simp only: load onload) simp
qed

theorem parse_failure_resets_view_model_witness:
  "loadFile examplePlatform \<lparr> name = ''f.json'', content = Some ''not json'' \<rparr> exampleLoaded =
     initialState\<lparr> parseError := ''Invalid JSON file: Unexpected token'' \<rparr>
   \<and> loadFile examplePlatform \<lparr> name = ''f.json'', content = Some ''  '' \<rparr> exampleLoaded =
     initialState\<lparr> parseError := ''Invalid JSON file: The selected file is empty.'' \<rparr>"
proof -
  have bad: "trim ''not json'' = [] \<or> jsonParse ''not json'' = None" by code_simp
  have blank: "trim ''  '' = [] \<or> jsonParse ''  '' = None" by code_simp
  have t1: "trim ''not json'' \<noteq> []" by code_simp
  have t2: "trim ''  '' = []" by code_simp
  from parse_failure_resets_view_model [OF bad, of examplePlatform "''f.json''" exampleLoaded,
      THEN conjunct2, THEN conjunct1] t1
  have "loadFile examplePlatform \<lparr> name = ''f.json'', content = Some ''not json'' \<rparr> exampleLoaded =
     initialState\<lparr> parseError := ''Invalid JSON file: Unexpected token'' \<rparr>"
    by (simp add: examplePlatform_def)
  moreover from parse_failure_resets_view_model [OF blank, of examplePlatform "''f.json''" exampleLoaded,
      THEN conjunct2, THEN conjunct1] t2
  have "loadFile examplePlatform \<lparr> name = ''f.json'', content = Some ''  '' \<rparr> exampleLoaded =
     initialState\<lparr> parseError := ''Invalid JSON file: The selected file is empty.'' \<rparr>"
    by simp
  ultimately show ?thesis by (rule conjI)
qed


section \<open>Numeric timestamps\<close>

lemma numberToString_nonempty: "numberToString n \<noteq> []"
  by (simp add: numberToString_def intDigits_nonempty)

lemma normalizeTimestamp_number: "normalizeTimestamp (Some (JNum n)) = numberToString n"
  by (simp add: normalizeTimestamp_def valueToInlineString_def numberToString_nonempty)

text \<open>
  C1 does not hold of the code. A number coerces to a non-empty text, its decimal form,
  so \<open>normalizeTimestamp\<close> returns that text and never reaches its conversion to
  a date: the timestamp of the event of the specification's example document is
  \<open>1700000000\<close>, where the ISO form of that Unix time is
  \<open>2023-11-14T22:13:20.000Z\<close>.
\<close>

theorem numeric_timestamp_stays_decimal:
  "normalizeTimestamp (Some (JNum n)) = numberToString n
   \<and> jsonParse exampleDocument =
       Some (JObj [(''events'', JArr [JObj [(''id'', JStr ''1''), (''level'', JStr ''ERR''),
         (''timestamp'', JNum 1700000000), (''message'', JStr ''x'')]])])
   \<and> map timestamp (eventViews (loadFile examplePlatform \<lparr> name = ''f.json'', content = Some exampleDocument \<rparr> initialState))
       = [''1700000000'']
   \<and> toISOString (1700000000 * 1000) = ''2023-11-14T22:13:20.000Z''"
proof -
  have "jsonParse exampleDocument =
       Some (JObj [(''events'', JArr [JObj [(''id'', JStr ''1''), (''level'', JStr ''ERR''),
         (''timestamp'', JNum 1700000000), (''message'', JStr ''x'')]])])"
    by code_simp
  moreover have "map timestamp (eventViews (loadFile examplePlatform \<lparr> name = ''f.json'', content = Some exampleDocument \<rparr> initialState))
       = [''1700000000'']"
    by code_simp
  moreover have "toISOString (1700000000 * 1000) = ''2023-11-14T22:13:20.000Z''"
    by code_simp
  ultimately show ?thesis using normalizeTimestamp_number by blast
qed

section \<open>Reading a serialization back\<close>

subsection \<open>The text of a value is cut into its tokens\<close>

























subsection \<open>The tokens of a well-formed value are read as the value\<close>











subsection \<open>Parsing yields well-formed values\<close>

















subsection \<open>The raw JSON of an event\<close>

















end
